theory Spec2Isabelle
  imports Complex_Main
begin

section \<open>Settings normalisation (shutdown-controller.ts)\<close>

text \<open>
  A JavaScript number is either a finite double, which is a rational number, or one of
  the three non-finite values. \<open>Number.isFinite\<close> and \<open>Math.round\<close> are defined by
  ECMAScript on the mathematical value of the double, so the rational model is exact for
  the way \<open>clampSeconds\<close> uses them.
\<close>

datatype number = Finite rat | NaN | PosInfinity | NegInfinity

text \<open>\<open>ShutdownSettings\<close>: every field is optional on input.\<close>

record ShutdownSettings =
  countdownSeconds_opt :: "number option"
  accentColor_opt :: "string option"
  multiTileLayout_opt :: "bool option"
  armed_opt :: "bool option"
  powerAction_opt :: "string option"

text \<open>
  \<open>NormalizedSettings = Required<ShutdownSettings>\<close>. The duration that
  \<open>clampSeconds\<close> returns is always an integral number, held here as an \<open>int\<close>.
\<close>

record NormalizedSettings =
  countdownSeconds :: int
  accentColor :: string
  multiTileLayout :: bool
  armed :: bool
  powerAction :: string

definition DEFAULTS :: NormalizedSettings where
  "DEFAULTS = \<lparr> countdownSeconds = 10, accentColor = ''#00d37f'', multiTileLayout = True,
                armed = False, powerAction = ''shutdown'' \<rparr>"

text \<open>\<open>Number.isFinite\<close>.\<close>

fun isFinite :: "number \<Rightarrow> bool" where
  "isFinite (Finite _) = True"
| "isFinite _ = False"

text \<open>
  \<open>Math.round\<close> on a finite value: the closest integer, ties towards plus infinity.
\<close>

definition round_half_up :: "rat \<Rightarrow> int" where
  "round_half_up x = \<lfloor>x + 1 / 2\<rfloor>"

text \<open>
  \<open>clampSeconds\<close>: a non-finite input is replaced by the default duration before
  rounding, so the value that reaches \<open>Math.round\<close> is always finite.
\<close>

definition clampSeconds :: "number \<Rightarrow> int" where
  "clampSeconds seconds =
     (let safe = (if isFinite seconds then seconds
                  else Finite (of_int (countdownSeconds DEFAULTS)))
      in case safe of
           Finite x \<Rightarrow> min 30 (max 5 (round_half_up x))
         | _ \<Rightarrow> countdownSeconds DEFAULTS)"

text \<open>The character class \<open>[0-9a-fA-F]\<close>.\<close>

definition is_hex_digit :: "char \<Rightarrow> bool" where
  "is_hex_digit c = (c \<in> set ''0123456789abcdefABCDEF'')"

text \<open>\<open>toLowerCase\<close> on the ASCII letters, the only letters a six-digit hex string has.\<close>

definition lower_char :: "char \<Rightarrow> char" where
  "lower_char c =
     (case map_of (zip ''ABCDEFGHIJKLMNOPQRSTUVWXYZ'' ''abcdefghijklmnopqrstuvwxyz'') c of
        Some l \<Rightarrow> l
      | None \<Rightarrow> c)"

definition toLowerCase :: "string \<Rightarrow> string" where
  "toLowerCase s = map lower_char s"

text \<open>
  \<open>normalizeColor\<close>: the empty string is falsy; one leading \<open>#\<close> is dropped; the rest
  must match \<open>/^[0-9a-fA-F]{6}$/\<close>.
\<close>

definition normalizeColor :: "string \<Rightarrow> string" where
  "normalizeColor color =
     (if color = [] then accentColor DEFAULTS
      else let hex = (if hd color = CHR ''#'' then tl color else color);
               isValid = (length hex = 6 \<and> list_all is_hex_digit hex)
           in if isValid then toLowerCase (CHR ''#'' # hex) else accentColor DEFAULTS)"

definition normalizePowerAction :: "string option \<Rightarrow> string" where
  "normalizePowerAction action =
     (case action of
        None \<Rightarrow> powerAction DEFAULTS
      | Some a \<Rightarrow> if a = ''restart'' \<or> a = ''sleep'' \<or> a = ''shutdown'' then a
                  else powerAction DEFAULTS)"

text \<open>
  \<open>normalizeSettings(settings?)\<close>. \<open>settings?.f ?? d\<close> reads \<open>d\<close> when the settings
  object or the field is absent.
\<close>

definition field :: "ShutdownSettings option \<Rightarrow> (ShutdownSettings \<Rightarrow> 'a option) \<Rightarrow> 'a option" where
  "field settings f = (case settings of None \<Rightarrow> None | Some s \<Rightarrow> f s)"

definition normalizeSettings :: "ShutdownSettings option \<Rightarrow> NormalizedSettings" where
  "normalizeSettings settings =
     (let accent = normalizeColor
                     (case field settings accentColor_opt of
                        None \<Rightarrow> accentColor DEFAULTS | Some c \<Rightarrow> c);
          seconds = clampSeconds
                      (case field settings countdownSeconds_opt of
                         None \<Rightarrow> Finite (of_int (countdownSeconds DEFAULTS)) | Some n \<Rightarrow> n)
      in \<lparr> countdownSeconds = seconds,
           accentColor = accent,
           multiTileLayout = (case field settings multiTileLayout_opt of
                                Some b \<Rightarrow> b | None \<Rightarrow> multiTileLayout DEFAULTS),
           armed = (case field settings armed_opt of
                      Some b \<Rightarrow> b | None \<Rightarrow> armed DEFAULTS),
           powerAction = normalizePowerAction (field settings powerAction_opt) \<rparr>)"

text \<open>
  A normalised value handed back as a settings payload (what \<open>setSettings\<close> stores and a
  later event delivers): every field present.
\<close>

definition as_payload :: "NormalizedSettings \<Rightarrow> ShutdownSettings" where
  "as_payload n =
     \<lparr> countdownSeconds_opt = Some (Finite (of_int (countdownSeconds n))),
       accentColor_opt = Some (accentColor n),
       multiTileLayout_opt = Some (multiTileLayout n),
       armed_opt = Some (armed n),
       powerAction_opt = Some (powerAction n) \<rparr>"

definition no_settings :: ShutdownSettings where
  "no_settings = \<lparr> countdownSeconds_opt = None, accentColor_opt = None,
                   multiTileLayout_opt = None, armed_opt = None, powerAction_opt = None \<rparr>"

section \<open>Escaping of message text (display-renderer.ts)\<close>

text \<open>
  \<open>escapeXml\<close>: \<open>value.replace(/[<>&"]/g, ...)\<close> replaces every occurrence of the four
  characters and keeps every other character.
\<close>

definition escape_char :: "char \<Rightarrow> string" where
  \<open>escape_char c =
     (if c = CHR ''<'' then ''&lt;''
      else if c = CHR ''>'' then ''&gt;''
      else if c = CHR ''&'' then ''&amp;''
      else if c = CHR 0x22 then ''&quot;''
      else [c])\<close>

definition escapeXml :: "string \<Rightarrow> string" where
  "escapeXml v = concat (map escape_char v)"

text \<open>
  A text is free of raw markup when none of \<open><\<close>, \<open>>\<close>, \<open>"\<close> occurs in it and every
  \<open>&\<close> opens one of the four entities.
\<close>

function markup_free :: "string \<Rightarrow> bool" where
  "markup_free [] = True"
| "markup_free (c # cs) =
     (if c = CHR ''&'' then
        (if take 3 cs = ''lt;'' then markup_free (drop 3 cs)
         else if take 3 cs = ''gt;'' then markup_free (drop 3 cs)
         else if take 4 cs = ''amp;'' then markup_free (drop 4 cs)
         else if take 5 cs = ''quot;'' then markup_free (drop 5 cs)
         else False)
      else if c = CHR ''<'' \<or> c = CHR ''>'' \<or> c = CHR 0x22 then False
      else markup_free cs)"
  by pat_completeness auto
termination
  by (relation "measure length") auto

text \<open>What an XML reader makes of the four entities: the inverse of the escaping.\<close>

function unescapeXml :: "string \<Rightarrow> string" where
  "unescapeXml [] = []"
| "unescapeXml (c # cs) =
     (if c = CHR ''&'' \<and> take 3 cs = ''lt;'' then CHR ''<'' # unescapeXml (drop 3 cs)
      else if c = CHR ''&'' \<and> take 3 cs = ''gt;'' then CHR ''>'' # unescapeXml (drop 3 cs)
      else if c = CHR ''&'' \<and> take 4 cs = ''amp;'' then CHR ''&'' # unescapeXml (drop 4 cs)
      else if c = CHR ''&'' \<and> take 5 cs = ''quot;'' then CHR 0x22 # unescapeXml (drop 5 cs)
      else c # unescapeXml cs)"
  by pat_completeness auto
termination
  by (relation "measure length") auto

section \<open>The countdown timer (countdown-timer.ts)\<close>

datatype CountdownState = idle | running | cancelled

text \<open>
  The fields of a \<open>CountdownTimer\<close> object. \<open>timeout\<close> holds the handle that the last
  \<open>setTimeout\<close> returned, or nothing. The duration is an integral number of seconds:
  the coordinator builds every timer from a duration that went through \<open>clampSeconds\<close>.
\<close>

record CountdownTimer =
  durationSeconds :: int
  state :: CountdownState
  remainingSeconds :: int
  timeout :: "nat option"

definition new_CountdownTimer :: "int \<Rightarrow> CountdownTimer" where
  "new_CountdownTimer d =
     \<lparr> durationSeconds = d, state = idle, remainingSeconds = 0, timeout = None \<rparr>"

text \<open>
  The host's timer queue: the handles of the timeouts that are set and have neither fired
  nor been cleared, and the next fresh handle. Clearing a handle that is not in the queue
  does nothing, as \<open>clearTimeout\<close> does.
\<close>

record EventLoop =
  scheduled :: "nat list"
  next_handle :: nat

definition setTimeout :: "EventLoop \<Rightarrow> nat \<times> EventLoop" where
  "setTimeout lp =
     (next_handle lp,
      lp\<lparr>scheduled := scheduled lp @ [next_handle lp], next_handle := Suc (next_handle lp)\<rparr>)"

definition clearTimeout :: "nat \<Rightarrow> EventLoop \<Rightarrow> EventLoop" where
  "clearTimeout h lp = lp\<lparr>scheduled := removeAll h (scheduled lp)\<rparr>"

text \<open>
  The methods are cut where they call a callback or wait. \<open>start_begin\<close> is \<open>start\<close> up
  to \<open>scheduleTick\<close>; the caller then enters \<open>runTick\<close>, whose first statement calls
  \<open>onTick(this.remainingSeconds)\<close>.
\<close>

definition start_begin :: "CountdownTimer \<Rightarrow> bool \<times> CountdownTimer" where
  "start_begin t =
     (if state t = running then (False, t)
      else (True, t\<lparr>state := running, remainingSeconds := durationSeconds t\<rparr>))"

text \<open>
  \<open>runTick\<close> after \<open>await onTick(...)\<close>: it stops when the state is no longer running,
  completes (and then calls \<open>onComplete\<close>) when the remaining seconds are exactly 0, and
  otherwise sets a timeout of one second.
\<close>

datatype tick_outcome = Stopped | Completed | Waiting

definition runTick_after ::
  "CountdownTimer \<Rightarrow> EventLoop \<Rightarrow> tick_outcome \<times> CountdownTimer \<times> EventLoop" where
  "runTick_after t lp =
     (if state t \<noteq> running then (Stopped, t, lp)
      else if remainingSeconds t = 0 then (Completed, t\<lparr>timeout := None, state := idle\<rparr>, lp)
      else let (h, lp') = setTimeout lp in (Waiting, t\<lparr>timeout := Some h\<rparr>, lp'))"

text \<open>
  The body of the timeout's callback: nothing when the state is no longer running, else
  one second less and (the caller's part) \<open>scheduleTick\<close> again.
\<close>

definition timeout_fired :: "CountdownTimer \<Rightarrow> bool \<times> CountdownTimer" where
  "timeout_fired t =
     (if state t \<noteq> running then (False, t)
      else (True, t\<lparr>remainingSeconds := remainingSeconds t - 1\<rparr>))"

text \<open>
  \<open>cancel\<close> up to the call of \<open>onCancel\<close>, and \<open>cancel\<close> after it. The first part
  answers \<open>False\<close> when no countdown is running, and then \<open>cancel\<close> returns \<open>false\<close>
  at once.
\<close>

definition cancel_begin ::
  "CountdownTimer \<Rightarrow> EventLoop \<Rightarrow> bool \<times> CountdownTimer \<times> EventLoop" where
  "cancel_begin t lp =
     (if state t \<noteq> running then (False, t, lp)
      else let (t1, lp1) = (case timeout t of
                              Some h \<Rightarrow> (t\<lparr>timeout := None\<rparr>, clearTimeout h lp)
                            | None \<Rightarrow> (t, lp))
           in (True, t1\<lparr>state := cancelled, remainingSeconds := 0\<rparr>, lp1))"

definition cancel_end :: "CountdownTimer \<Rightarrow> CountdownTimer" where
  "cancel_end t = t\<lparr>state := idle\<rparr>"

definition dispose :: "CountdownTimer \<Rightarrow> EventLoop \<Rightarrow> CountdownTimer \<times> EventLoop" where
  "dispose t lp =
     (let (t1, lp1) = (case timeout t of
                         Some h \<Rightarrow> (t\<lparr>timeout := None\<rparr>, clearTimeout h lp)
                       | None \<Rightarrow> (t, lp))
      in (t1\<lparr>remainingSeconds := 0, state := idle\<rparr>, lp1))"

subsection \<open>A timer with its callbacks observed\<close>

text \<open>
  One timer together with the timer queue, the activations of \<open>runTick\<close> and \<open>cancel\<close>
  that wait for their callback's promise, and the calls of the callbacks in the order
  they were made. The callbacks themselves do nothing to the timer; whatever a callback or
  anybody else does to the timer while a promise is pending is an action of its own.
\<close>

datatype observation = Tick int | Complete | CancelCallback

record TimerSys =
  tmr :: CountdownTimer
  loop :: EventLoop
  awaiting_onTick :: nat
  awaiting_onCancel :: nat
  observed :: "observation list"

definition fresh_sys :: "int \<Rightarrow> TimerSys" where
  "fresh_sys d =
     \<lparr> tmr = new_CountdownTimer d, loop = \<lparr> scheduled = [], next_handle = 0 \<rparr>,
       awaiting_onTick = 0, awaiting_onCancel = 0, observed = [] \<rparr>"

text \<open>The first statement of \<open>runTick\<close>: \<open>onTick(this.remainingSeconds)\<close>, then the wait.\<close>

definition runTick_call :: "TimerSys \<Rightarrow> TimerSys" where
  "runTick_call s =
     s\<lparr>observed := observed s @ [Tick (remainingSeconds (tmr s))],
       awaiting_onTick := Suc (awaiting_onTick s)\<rparr>"

definition sys_start :: "TimerSys \<Rightarrow> bool \<times> TimerSys" where
  "sys_start s =
     (case start_begin (tmr s) of
        (False, _) \<Rightarrow> (False, s)
      | (True, t) \<Rightarrow> (True, runTick_call (s\<lparr>tmr := t\<rparr>)))"

text \<open>The promise of one pending \<open>onTick\<close> resolves and its \<open>runTick\<close> goes on.\<close>

definition sys_onTick_returns :: "TimerSys \<Rightarrow> TimerSys" where
  "sys_onTick_returns s =
     (if awaiting_onTick s = 0 then s
      else let s1 = s\<lparr>awaiting_onTick := awaiting_onTick s - 1\<rparr>
           in case runTick_after (tmr s1) (loop s1) of
                (Stopped, t, lp) \<Rightarrow> s1\<lparr>tmr := t, loop := lp\<rparr>
              | (Completed, t, lp) \<Rightarrow>
                  s1\<lparr>tmr := t, loop := lp, observed := observed s1 @ [Complete]\<rparr>
              | (Waiting, t, lp) \<Rightarrow> s1\<lparr>tmr := t, loop := lp\<rparr>)"

text \<open>The timeout with handle \<open>h\<close> fires, if it is still in the queue.\<close>

definition sys_timeout_fires :: "nat \<Rightarrow> TimerSys \<Rightarrow> TimerSys" where
  "sys_timeout_fires h s =
     (if h \<notin> set (scheduled (loop s)) then s
      else let s1 = s\<lparr>loop := clearTimeout h (loop s)\<rparr>
           in case timeout_fired (tmr s1) of
                (False, _) \<Rightarrow> s1
              | (True, t) \<Rightarrow> runTick_call (s1\<lparr>tmr := t\<rparr>))"

text \<open>
  \<open>cancel(onCancel?)\<close>. The answer is \<open>Some b\<close> when the promise resolves to \<open>b\<close>
  without waiting, and \<open>None\<close> while it waits for \<open>onCancel\<close>.
\<close>

definition sys_cancel :: "bool \<Rightarrow> TimerSys \<Rightarrow> bool option \<times> TimerSys" where
  "sys_cancel has_callback s =
     (case cancel_begin (tmr s) (loop s) of
        (False, _, _) \<Rightarrow> (Some False, s)
      | (True, t, lp) \<Rightarrow>
          if has_callback
          then (None, s\<lparr>tmr := t, loop := lp,
                         observed := observed s @ [CancelCallback],
                         awaiting_onCancel := Suc (awaiting_onCancel s)\<rparr>)
          else (Some True, s\<lparr>tmr := cancel_end t, loop := lp\<rparr>))"

text \<open>The promise of one pending \<open>onCancel\<close> resolves; that \<open>cancel\<close> returns \<open>true\<close>.\<close>

definition sys_onCancel_returns :: "TimerSys \<Rightarrow> bool option \<times> TimerSys" where
  "sys_onCancel_returns s =
     (if awaiting_onCancel s = 0 then (None, s)
      else (Some True, s\<lparr>awaiting_onCancel := awaiting_onCancel s - 1,
                          tmr := cancel_end (tmr s)\<rparr>))"

definition sys_dispose :: "TimerSys \<Rightarrow> TimerSys" where
  "sys_dispose s = (case dispose (tmr s) (loop s) of (t, lp) \<Rightarrow> s\<lparr>tmr := t, loop := lp\<rparr>)"

text \<open>Everything that can happen to a timer.\<close>

datatype timer_action =
    Start | Cancel bool | Dispose | OnTickReturns | OnCancelReturns | TimeoutFires nat

fun act :: "timer_action \<Rightarrow> TimerSys \<Rightarrow> TimerSys" where
  "act Start s = snd (sys_start s)"
| "act (Cancel cb) s = snd (sys_cancel cb s)"
| "act Dispose s = sys_dispose s"
| "act OnTickReturns s = sys_onTick_returns s"
| "act OnCancelReturns s = snd (sys_onCancel_returns s)"
| "act (TimeoutFires h) s = sys_timeout_fires h s"

fun acts :: "timer_action list \<Rightarrow> TimerSys \<Rightarrow> TimerSys" where
  "acts [] s = s"
| "acts (a # as) s = acts as (act a s)"

text \<open>The values \<open>onTick\<close> was called with, in order.\<close>

fun ticks :: "observation list \<Rightarrow> int list" where
  "ticks [] = []"
| "ticks (Tick n # os) = n # ticks os"
| "ticks (_ # os) = ticks os"

text \<open>
  A countdown left alone: pending \<open>onTick\<close> promises resolve, set timeouts fire, nobody
  calls the timer. The run ends when nothing is pending; the fuel bounds the number of
  steps, and \<open>None\<close> says that the fuel ran out first.
\<close>

fun run :: "nat \<Rightarrow> TimerSys \<Rightarrow> TimerSys option" where
  "run n s =
     (if 0 < awaiting_onTick s then
        (case n of 0 \<Rightarrow> None | Suc m \<Rightarrow> run m (sys_onTick_returns s))
      else (case scheduled (loop s) of
              [] \<Rightarrow> Some s
            | h # _ \<Rightarrow> (case n of 0 \<Rightarrow> None | Suc m \<Rightarrow> run m (sys_timeout_fires h s))))"

text \<open>The values \<open>d, d - 1, ..., 0\<close>.\<close>

fun countdown_from :: "nat \<Rightarrow> int list" where
  "countdown_from 0 = [0]"
| "countdown_from (Suc n) = int (Suc n) # countdown_from n"

section \<open>The display renderer (display-renderer.ts)\<close>

text \<open>
  A key as far as the renderer and the coordinator read it: its context id, the id of its
  device when it has one (\<open>action.device?.id\<close>) and its grid coordinates
  \<open>(column, row)\<close> when it has them.
\<close>

record KeyAction =
  key_id :: string
  device_id :: "string option"
  coordinates :: "(int \<times> int) option"

record Tile =
  action :: KeyAction
  col :: int
  row :: int

record Layout =
  tileSize :: int
  minCol :: int
  minRow :: int
  columns :: int
  rows :: int
  widthPx :: int
  heightPx :: int

text \<open>\<open>DisplayStyle\<close>; its field \<open>text\<close> is \<open>text_colour\<close> here.\<close>

record DisplayStyle =
  accent :: string
  text_colour :: string
  background :: string
  grid :: string
  progressBg :: string
  progressFg :: string
  blink :: bool

record RenderOptions =
  opt_accentColor :: "string option"
  opt_textColor :: "string option"
  opt_backgroundColor :: "string option"
  opt_gridColor :: "string option"
  opt_progressColor :: "string option"
  opt_progressBackground :: "string option"
  opt_blink :: "bool option"
  opt_multiTileLayout :: "bool option"

text \<open>
  How a template literal prints an integral number (grid coordinates and pixel sizes; they
  stay far below the \<open>1e21\<close> from which JavaScript prints an exponent).
\<close>

definition digit_char :: "nat \<Rightarrow> char" where
  "digit_char n = ''0123456789'' ! n"

fun show_nat :: "nat \<Rightarrow> string" where
  "show_nat n = (if n < 10 then [digit_char n] else show_nat (n div 10) @ [digit_char (n mod 10)])"

definition show_int :: "int \<Rightarrow> string" where
  "show_int i = (if i < 0 then CHR ''-'' # show_nat (nat (- i)) else show_nat (nat i))"

text \<open>A line break of a template literal followed by \<open>n\<close> tabs.\<close>

definition nl :: "nat \<Rightarrow> string" where
  "nl n = CHR 0x0A # replicate n (CHR 0x09)"

definition the_tileSize :: int where
  "the_tileSize = 200"

text \<open>
  \<open>prepareTiles\<close>: the keys that have coordinates, in order; when none has, the first key
  at \<open>(0, 0)\<close>.
\<close>

fun tiles_with_coordinates :: "KeyAction list \<Rightarrow> Tile list" where
  "tiles_with_coordinates [] = []"
| "tiles_with_coordinates (a # as) =
     (case coordinates a of
        None \<Rightarrow> tiles_with_coordinates as
      | Some (c, r) \<Rightarrow> \<lparr> action = a, col = c, row = r \<rparr> # tiles_with_coordinates as)"

definition prepareTiles :: "KeyAction list \<Rightarrow> Tile list" where
  "prepareTiles actions =
     (let tiles = tiles_with_coordinates actions
      in if tiles = [] \<and> actions \<noteq> []
         then [\<lparr> action = hd actions, col = 0, row = 0 \<rparr>]
         else tiles)"

text \<open>
  \<open>buildLayout\<close>. Both callers return before it when there is no tile; on an empty list
  the source would compute with \<open>Infinity\<close>, and the model has no layout for it.
\<close>

fun minimum :: "int \<Rightarrow> int list \<Rightarrow> int" where
  "minimum x [] = x"
| "minimum x (y # ys) = minimum (min x y) ys"

fun maximum :: "int \<Rightarrow> int list \<Rightarrow> int" where
  "maximum x [] = x"
| "maximum x (y # ys) = maximum (max x y) ys"

definition buildLayout :: "Tile list \<Rightarrow> Layout option" where
  "buildLayout tiles =
     (case tiles of
        [] \<Rightarrow> None
      | t # ts \<Rightarrow>
          let minCol = minimum (col t) (map col ts);
              maxCol = maximum (col t) (map col ts);
              minRow = minimum (row t) (map row ts);
              maxRow = maximum (row t) (map row ts);
              columns = maxCol - minCol + 1;
              rows = maxRow - minRow + 1;
              widthPx = columns * the_tileSize;
              heightPx = rows * the_tileSize
          in Some \<lparr> tileSize = the_tileSize, minCol = minCol, minRow = minRow,
                    columns = columns, rows = rows, widthPx = widthPx, heightPx = heightPx \<rparr>)"

text \<open>
  \<open>colorForRatio\<close> and \<open>buildStyle\<close>. The ratio is a quotient of two integral numbers
  compared with 0.66 and 0.33; it is computed here in the reals.
\<close>

definition colorForRatio :: "real \<Rightarrow> string" where
  "colorForRatio ratio =
     (if ratio > 66 / 100 then ''#00d37f''
      else if ratio > 33 / 100 then ''#ffb02e''
      else ''#ff3b30'')"

definition opt :: "RenderOptions option \<Rightarrow> (RenderOptions \<Rightarrow> 'a option) \<Rightarrow> 'a option" where
  "opt options f = (case options of None \<Rightarrow> None | Some o' \<Rightarrow> f o')"

definition orElse :: "'a option \<Rightarrow> 'a \<Rightarrow> 'a" where
  "orElse v d = (case v of None \<Rightarrow> d | Some x \<Rightarrow> x)"

definition buildStyle :: "int \<Rightarrow> int \<Rightarrow> RenderOptions option \<Rightarrow> DisplayStyle" where
  "buildStyle remaining total' options =
     (let ratio = (if total' > 0 then max 0 (min 1 (real_of_int remaining / real_of_int total'))
                   else 0);
          accent = orElse (opt options opt_accentColor) (colorForRatio ratio);
          background = orElse (opt options opt_backgroundColor) ''#050910'';
          text = orElse (opt options opt_textColor) ''#e7f0ff'';
          blink = orElse (opt options opt_blink) False;
          grid = orElse (opt options opt_gridColor)
                   (if blink then ''rgba(255,255,255,0.24)'' else ''rgba(255,255,255,0.12)'')
      in \<lparr> accent = accent, text_colour = text, background = background, grid = grid,
           progressBg = orElse (opt options opt_progressBackground) ''rgba(255,255,255,0.12)'',
           progressFg = orElse (opt options opt_progressColor) (colorForRatio ratio),
           blink = blink \<rparr>)"

definition buildDefs :: "DisplayStyle \<Rightarrow> string" where
  \<open>buildDefs style =
     ''<defs>'' @ nl 3
     @ ''<filter id="digit-glow" x="-30%" y="-30%" width="160%" height="160%">'' @ nl 4
     @ ''<feGaussianBlur stdDeviation="6" result="blur" />'' @ nl 4
     @ ''<feMerge>'' @ nl 5
     @ ''<feMergeNode in="blur" />'' @ nl 5
     @ ''<feMergeNode in="SourceGraphic" />'' @ nl 4
     @ ''</feMerge>'' @ nl 3
     @ ''</filter>'' @ nl 2
     @ ''</defs>''\<close>

definition baseBackground :: "Layout \<Rightarrow> DisplayStyle \<Rightarrow> string" where
  \<open>baseBackground layout style =
     (let vignette = (if blink style then ''rgba(255,255,255,0.06)'' else ''rgba(0,0,0,0.14)'')
      in ''<rect x="0" y="0" width="'' @ show_int (widthPx layout)
         @ ''" height="'' @ show_int (heightPx layout)
         @ ''" fill="'' @ background style @ ''" />'' @ nl 2
         @ ''<rect x="0" y="0" width="'' @ show_int (widthPx layout)
         @ ''" height="'' @ show_int (heightPx layout)
         @ ''" fill="'' @ vignette @ ''" />'')\<close>

definition gridLines :: "Layout \<Rightarrow> DisplayStyle \<Rightarrow> string" where
  \<open>gridLines layout style =
     concat
       (map (\<lambda>c. let x = c * tileSize layout
                 in ''<line x1="'' @ show_int x @ ''" y1="0" x2="'' @ show_int x
                    @ ''" y2="'' @ show_int (heightPx layout)
                    @ ''" stroke="'' @ grid style @ ''" stroke-width="4" />'')
          [1 .. columns layout - 1]
        @ map (\<lambda>r. let y = r * tileSize layout
                   in ''<line x1="0" y1="'' @ show_int y
                      @ ''" x2="'' @ show_int (widthPx layout) @ ''" y2="'' @ show_int y
                      @ ''" stroke="'' @ grid style @ ''" stroke-width="4" />'')
            [1 .. rows layout - 1])\<close>

text \<open>
  \<open>toDataUri\<close>; \<open>encodeURIComponent\<close> is the host's and a parameter here.
\<close>

definition toDataUri :: "(string \<Rightarrow> string) \<Rightarrow> string \<Rightarrow> string" where
  "toDataUri encodeURIComponent svg = ''data:image/svg+xml;utf8,'' @ encodeURIComponent svg"

text \<open>
  \<open>renderAcrossTiles\<close>: the graphic of the whole canvas once, and for every tile the
  document that shows it through the tile's \<open>viewBox\<close>. The result lists the calls
  \<open>tile.action.setImage(dataUri)\<close> in the order they are made: the key and the image.
\<close>

definition fullGraphic :: "Layout \<Rightarrow> string \<Rightarrow> DisplayStyle \<Rightarrow> string" where
  "fullGraphic layout content style =
     buildDefs style @ baseBackground layout style @ gridLines layout style @ content"

definition tile_svg :: "Layout \<Rightarrow> string \<Rightarrow> Tile \<Rightarrow> string" where
  \<open>tile_svg layout graphic tile =
     (let viewX = (col tile - minCol layout) * tileSize layout;
          viewY = (row tile - minRow layout) * tileSize layout
      in ''<svg xmlns="http://www.w3.org/2000/svg" viewBox="'' @ show_int viewX @ '' ''
         @ show_int viewY @ '' '' @ show_int (tileSize layout) @ '' ''
         @ show_int (tileSize layout) @ ''" width="200" height="200">'' @ graphic
         @ ''</svg>'')\<close>

definition renderAcrossTiles ::
  "(string \<Rightarrow> string) \<Rightarrow> Tile list \<Rightarrow> Layout \<Rightarrow> string \<Rightarrow> DisplayStyle \<Rightarrow> (string \<times> string) list" where
  "renderAcrossTiles enc tiles layout content style =
     (let graphic = fullGraphic layout content style
      in map (\<lambda>tile. (key_id (action tile), toDataUri enc (tile_svg layout graphic tile))) tiles)"

text \<open>
  \<open>buildMessageGraphic\<close>. The sizes are doubles in the source; they are computed here in
  the reals and printed by \<open>fmt\<close>, the host's conversion of a number to a string, which
  is a parameter. No statement below depends on their values.
\<close>

definition buildMessageGraphic ::
  "(real \<Rightarrow> string) \<Rightarrow> string \<Rightarrow> Layout \<Rightarrow> DisplayStyle \<Rightarrow> string" where
  \<open>buildMessageGraphic fmt message layout style =
     (let safeMessage = escapeXml message;
          isMulti = (columns layout > 1 \<or> rows layout > 1);
          padding = (if isMulti
                     then max (real_of_int (tileSize layout) * (16 / 100))
                              (real_of_int (widthPx layout) * (5 / 100))
                     else real_of_int (tileSize layout) * (12 / 100));
          maxFontByWidth = (real_of_int (widthPx layout) - padding * 2)
                           / max 3 (real (length safeMessage) * (62 / 100));
          maxFontByHeight = real_of_int (heightPx layout) * (38 / 100);
          fontSize = min maxFontByWidth maxFontByHeight;
          leftInset = (if isMulti
                       then max (real_of_int (tileSize layout) * (8 / 100))
                                (real_of_int (widthPx layout) * (32 / 1000))
                       else 0);
          centerX = real_of_int (widthPx layout) / 2 - leftInset;
          centerY = real_of_int (heightPx layout) / 2 + fontSize / 3
      in if safeMessage = [] then []
         else ''<g filter="url(#digit-glow)">'' @ nl 3
              @ ''<text x="'' @ fmt centerX @ ''" y="'' @ fmt centerY
              @ ''" fill="'' @ text_colour style
              @ ''" font-family="Segoe UI Semibold,Segoe UI,Arial" font-size="'' @ fmt fontSize
              @ ''" text-anchor="middle" letter-spacing="'' @ fmt (fontSize * (38 / 1000))
              @ ''" dominant-baseline="middle">'' @ safeMessage @ ''</text>'' @ nl 2
              @ ''</g>'')\<close>

text \<open>
  \<open>buildCountdownGraphic\<close> and what it calls: the seven segments of every digit of
  the remaining seconds and, before them, the progress ring of \<open>progressSweep\<close>. As in
  \<open>buildMessageGraphic\<close> the doubles are computed in the reals (\<open>Math.PI\<close> is \<open>pi\<close>)
  and printed by the parameter \<open>fmt\<close>.
\<close>

definition segmentsForDigit :: "int \<Rightarrow> bool list" where
  "segmentsForDigit digit =
     (if digit = 0 then [True, True, True, True, True, True, False]
      else if digit = 1 then [False, True, True, False, False, False, False]
      else if digit = 2 then [True, True, False, True, True, False, True]
      else if digit = 3 then [True, True, True, True, False, False, True]
      else if digit = 4 then [False, True, True, False, False, True, True]
      else if digit = 5 then [True, False, True, True, False, True, True]
      else if digit = 6 then [True, False, True, True, True, True, True]
      else if digit = 7 then [True, True, True, False, False, False, False]
      else if digit = 8 then [True, True, True, True, True, True, True]
      else if digit = 9 then [True, True, True, True, False, True, True]
      else [True, True, True, True, True, True, False])"

text \<open>
  \<open>Number.parseInt(char, 10)\<close> of one character, with 0 where it is \<open>NaN\<close>
  (\<open>Number.isNaN(digit) ? 0 : digit\<close>).
\<close>

definition digit_of_char :: "char \<Rightarrow> int" where
  "digit_of_char c =
     (case map_of (zip ''0123456789'' [0, 1, 2, 3, 4, 5, 6, 7, 8, 9]) c of
        Some d \<Rightarrow> d
      | None \<Rightarrow> 0)"

definition segmentRect ::
  "(real \<Rightarrow> string) \<Rightarrow> real \<Rightarrow> real \<Rightarrow> real \<Rightarrow> real \<Rightarrow> real \<Rightarrow> string \<Rightarrow> string" where
  \<open>segmentRect fmt x y width height radius fill =
     ''<rect x="'' @ fmt x @ ''" y="'' @ fmt y @ ''" width="'' @ fmt width
     @ ''" height="'' @ fmt height @ ''" rx="'' @ fmt radius @ ''" ry="'' @ fmt radius
     @ ''" fill="'' @ fill @ ''" />''\<close>

text \<open>\<open>flags[i]\<close>: an index past the end reads \<open>undefined\<close>, which is falsy.\<close>

definition flag :: "bool list \<Rightarrow> nat \<Rightarrow> bool" where
  "flag flags i = (i < length flags \<and> flags ! i)"

definition segmentSet ::
  "(real \<Rightarrow> string) \<Rightarrow> bool list \<Rightarrow> real \<Rightarrow> real \<Rightarrow> real \<Rightarrow> real \<Rightarrow> real \<Rightarrow> real \<Rightarrow> string \<Rightarrow> string" where
  "segmentSet fmt flags x y horizontalLength verticalLength thickness radius fill =
     (if flag flags 0
      then segmentRect fmt (x + thickness) y horizontalLength thickness radius fill else [])
     @ (if flag flags 1
        then segmentRect fmt (x + thickness + horizontalLength) (y + thickness)
               thickness verticalLength radius fill else [])
     @ (if flag flags 2
        then segmentRect fmt (x + thickness + horizontalLength)
               (y + thickness * 2 + verticalLength) thickness verticalLength radius fill
        else [])
     @ (if flag flags 3
        then segmentRect fmt (x + thickness) (y + thickness * 2 + verticalLength * 2)
               horizontalLength thickness radius fill else [])
     @ (if flag flags 4
        then segmentRect fmt x (y + thickness * 2 + verticalLength)
               thickness verticalLength radius fill else [])
     @ (if flag flags 5
        then segmentRect fmt x (y + thickness) thickness verticalLength radius fill else [])
     @ (if flag flags 6
        then segmentRect fmt (x + thickness) (y + thickness + verticalLength)
               horizontalLength thickness radius fill else [])"

definition renderDigit ::
  "(real \<Rightarrow> string) \<Rightarrow> bool list \<Rightarrow> real \<Rightarrow> real \<Rightarrow> real \<Rightarrow> real \<Rightarrow> DisplayStyle \<Rightarrow> string" where
  \<open>renderDigit fmt flags x y width height style =
     (let thickness = min width height * (18 / 100);
          horizontalLength = width - thickness * 2;
          verticalLength = (height - thickness * 3) / 2;
          radius = thickness * (35 / 100);
          coreSegments = segmentSet fmt flags x y horizontalLength verticalLength thickness
                           radius (accent style)
      in ''<g filter="url(#digit-glow)">'' @ coreSegments @ ''</g>'')\<close>

definition progressSweep :: "(real \<Rightarrow> string) \<Rightarrow> Layout \<Rightarrow> DisplayStyle \<Rightarrow> real \<Rightarrow> string" where
  \<open>progressSweep fmt layout style progress =
     (let clamped = max 0 (min 1 progress);
          cx = real_of_int (widthPx layout) / 2;
          cy = real_of_int (heightPx layout) / 2;
          radius = real_of_int (min (widthPx layout) (heightPx layout)) / 2
                   - real_of_int (tileSize layout) * (12 / 100);
          circumference = 2 * pi * radius;
          dashLength = circumference * clamped;
          strokeWidth = max 8 (real_of_int (tileSize layout) * (5 / 100))
      in nl 3 @ ''<g>'' @ nl 4
         @ ''<circle cx="'' @ fmt cx @ ''" cy="'' @ fmt cy @ ''" r="'' @ fmt radius
         @ ''" fill="none" stroke="'' @ progressBg style
         @ ''" stroke-width="'' @ fmt strokeWidth @ ''" />'' @ nl 4
         @ ''<circle cx="'' @ fmt cx @ ''" cy="'' @ fmt cy @ ''" r="'' @ fmt radius
         @ ''" fill="none" stroke="'' @ progressFg style
         @ ''" stroke-width="'' @ fmt strokeWidth
         @ ''" stroke-linecap="round" stroke-dasharray="'' @ fmt dashLength @ '' ''
         @ fmt circumference @ ''" transform="rotate(-90 '' @ fmt cx @ '' '' @ fmt cy
         @ '')" />'' @ nl 3
         @ ''</g>'' @ nl 2)\<close>

text \<open>
  \<open>remaining.toString().split("")\<close> gives the characters of the decimal numeral of the
  remaining seconds, which are integral.
\<close>

definition buildCountdownGraphic ::
  "(real \<Rightarrow> string) \<Rightarrow> int \<Rightarrow> Layout \<Rightarrow> DisplayStyle \<Rightarrow> real \<Rightarrow> string" where
  "buildCountdownGraphic fmt remaining layout style progress =
     (let digits = show_int remaining;
          baseDigitWidth = 80;
          baseDigitHeight = 140;
          gap = 20;
          padding = real_of_int (tileSize layout) * (8 / 100);
          contentWidth = real (length digits) * baseDigitWidth
                         + max 0 (real (length digits) - 1) * gap;
          contentHeight = baseDigitHeight;
          scale' = min ((real_of_int (widthPx layout) - padding * 2) / contentWidth)
                       ((real_of_int (heightPx layout) - padding * 2) / contentHeight);
          digitWidth = baseDigitWidth * scale';
          digitHeight = baseDigitHeight * scale';
          digitGap = gap * scale';
          totalWidth = real (length digits) * digitWidth
                       + max 0 (real (length digits) - 1) * digitGap;
          startX = (real_of_int (widthPx layout) - totalWidth) / 2;
          startY = (real_of_int (heightPx layout) - digitHeight) / 2;
          segments = concat
                       (map (\<lambda>(index, char).
                               renderDigit fmt (segmentsForDigit (digit_of_char char))
                                 (startX + real index * (digitWidth + digitGap)) startY
                                 digitWidth digitHeight style)
                          (enumerate 0 digits));
          progressRing = progressSweep fmt layout style progress
      in progressRing @ segments)"

text \<open>
  \<open>renderCountdown\<close> and \<open>renderMessage\<close>. \<open>renderCountdown\<close> takes the function that
  draws the countdown as the parameter \<open>digits\<close> and calls it with the arguments that the
  source passes to \<open>buildCountdownGraphic\<close>; the source's function is
  \<open>buildCountdownGraphic fmt\<close>.
\<close>

definition renderCountdown ::
  "(int \<Rightarrow> Layout \<Rightarrow> DisplayStyle \<Rightarrow> real \<Rightarrow> string) \<Rightarrow> (string \<Rightarrow> string) \<Rightarrow>
   int \<Rightarrow> int \<Rightarrow> KeyAction list \<Rightarrow> RenderOptions option \<Rightarrow> (string \<times> string) list" where
  "renderCountdown digits enc remaining totalSeconds actions options =
     (let tiles = prepareTiles actions
      in if tiles = [] then []
         else
           let useMultiTile = (opt options opt_multiTileLayout = Some True \<and> length tiles > 1);
               style = buildStyle remaining totalSeconds options;
               progress = (if totalSeconds > 0
                           then 1 - max 0 (min 1 (real_of_int remaining / real_of_int totalSeconds))
                           else 1)
           in if useMultiTile
              then (case buildLayout tiles of
                      None \<Rightarrow> []
                    | Some layout \<Rightarrow>
                        renderAcrossTiles enc tiles layout
                          (digits remaining layout style progress) style)
              else concat
                     (map (\<lambda>tile. case buildLayout [tile] of
                                    None \<Rightarrow> []
                                  | Some layout \<Rightarrow>
                                      renderAcrossTiles enc [tile] layout
                                        (digits remaining layout style progress) style)
                        tiles))"

definition renderMessage ::
  "(real \<Rightarrow> string) \<Rightarrow> (string \<Rightarrow> string) \<Rightarrow>
   string \<Rightarrow> KeyAction list \<Rightarrow> RenderOptions option \<Rightarrow> (string \<times> string) list" where
  "renderMessage fmt enc message actions options =
     (let tiles = prepareTiles actions
      in if tiles = [] then []
         else
           let useMultiTile = (length tiles > 1);
               style = buildStyle 1 1 options
           in if useMultiTile
              then (case buildLayout tiles of
                      None \<Rightarrow> []
                    | Some layout \<Rightarrow>
                        renderAcrossTiles enc tiles layout
                          (buildMessageGraphic fmt message layout style) style)
              else concat
                     (map (\<lambda>tile. case buildLayout [tile] of
                                    None \<Rightarrow> []
                                  | Some layout \<Rightarrow>
                                      renderAcrossTiles enc [tile] layout
                                        (buildMessageGraphic fmt message layout style) style)
                        tiles))"

section \<open>The power gateway (system-commands.ts)\<close>

text \<open>
  What the program does to the outside, in the order it does it: a call of the log
  function (the message and the error, if one is passed), the start of an external
  command, and the calls on keys and on the renderer that the coordinator makes.
\<close>

datatype effect =
    Log string "string option"
  | Exec string "string list"
  | SetSettings string NormalizedSettings
  | SetTitle string string
  | RenderCountdown int int "KeyAction list" RenderOptions
  | RenderMessage string "KeyAction list" RenderOptions

text \<open>
  The host: \<open>process.platform\<close>, and how \<open>execFileAsync(command, args)\<close> ends, with
  \<open>Inl error\<close> for a promise that rejects.
\<close>

record Host =
  platform :: string
  execFile :: "string \<Rightarrow> string list \<Rightarrow> string + unit"

text \<open>\<open>SystemPower\<close>: whether a log function was given, and the gate.\<close>

record SystemPower =
  has_log :: bool
  power_armed :: bool

definition new_SystemPower :: "bool \<Rightarrow> SystemPower" where
  "new_SystemPower with_log = \<lparr> has_log = with_log, power_armed = False \<rparr>"

text \<open>\<open>this.log?.(message, error)\<close>.\<close>

definition log_call :: "SystemPower \<Rightarrow> string \<Rightarrow> string option \<Rightarrow> effect list" where
  "log_call p message error = (if has_log p then [Log message error] else [])"

definition setArmed :: "bool \<Rightarrow> SystemPower \<Rightarrow> SystemPower \<times> effect list" where
  "setArmed v p =
     (p\<lparr>power_armed := v\<rparr>,
      log_call p (if v then ''power armed (live mode)'' else ''power disarmed (preview mode)'')
        None)"

text \<open>
  \<open>runCommand\<close>: the \<open>try\<close> runs the command and logs its success, the \<open>catch\<close> logs
  the failure. The first component says how the promise of \<open>runCommand\<close> ends.
\<close>

definition runCommand ::
  "Host \<Rightarrow> SystemPower \<Rightarrow> string \<Rightarrow> string list \<Rightarrow> string \<Rightarrow> (string + unit) \<times> effect list" where
  "runCommand host p command args label =
     (case execFile host command args of
        Inr _ \<Rightarrow> (Inr (), Exec command args # log_call p (label @ '' executed'') None)
      | Inl error \<Rightarrow>
          (Inr (), Exec command args # log_call p (label @ '' failed'') (Some error)))"

definition perform :: "Host \<Rightarrow> string \<Rightarrow> SystemPower \<Rightarrow> (string + unit) \<times> effect list" where
  "perform host action' p =
     (if \<not> power_armed p then (Inr (), log_call p (action' @ '' skipped (not armed)'') None)
      else if platform host \<noteq> ''win32''
      then (Inr (), log_call p (action' @ '' skipped (non-Windows)'') None)
      else if action' = ''shutdown''
      then runCommand host p ''shutdown'' [''/s'', ''/t'', ''0''] ''trigger shutdown''
      else if action' = ''restart''
      then runCommand host p ''shutdown'' [''/r'', ''/t'', ''0''] ''trigger restart''
      else if action' = ''sleep''
      then runCommand host p ''rundll32.exe'' [''powrprof.dll,SetSuspendState'', ''0,1,0'']
             ''trigger sleep''
      else (Inr (), log_call p (''unknown power action: '' @ action') None))"

definition abortScheduled :: "Host \<Rightarrow> SystemPower \<Rightarrow> (string + unit) \<times> effect list" where
  "abortScheduled host p =
     (if \<not> power_armed p then (Inr (), log_call p ''abort skipped (not armed)'' None)
      else if platform host \<noteq> ''win32''
      then (Inr (), log_call p ''abort skipped (non-Windows)'' None)
      else runCommand host p ''shutdown'' [''/a''] ''abort shutdown'')"

text \<open>The external commands among some effects.\<close>

fun commands :: "effect list \<Rightarrow> (string \<times> string list) list" where
  "commands [] = []"
| "commands (Exec c as # es) = (c, as) # commands es"
| "commands (_ # es) = commands es"

section \<open>The coordinator (shutdown-controller.ts)\<close>

datatype Role = master | child

datatype ActionState = st_idle | st_arming | st_armed | st_running | st_cancelled

record ActionContext =
  ctx_id :: string
  ctx_action :: KeyAction
  ctx_role :: Role
  deviceId :: string

text \<open>
  The fields of the \<open>ShutdownController\<close>. \<open>timer\<close> refers to a timer object; the
  objects live in \<open>timers\<close>, so that a timer that was replaced is still there for the
  callbacks that hold it. \<open>activeKeys\<close> is the \<open>Map\<close> in its insertion order, \<open>queue\<close>
  the host's timer queue, \<open>gateway\<close> the field \<open>power\<close>, \<open>ctl_state\<close> the field
  \<open>state\<close>, and \<open>trace\<close> lists the effects so far.
\<close>

record ShutdownController =
  timers :: "nat \<Rightarrow> CountdownTimer"
  timer_count :: nat
  timer :: nat
  queue :: EventLoop
  gateway :: SystemPower
  activeKeys :: "(string \<times> ActionContext) list"
  ctl_state :: ActionState
  blinkToggle :: bool
  sharedSettings :: NormalizedSettings
  masterContext :: "string option"
  trace :: "effect list"

definition new_ShutdownController :: ShutdownController where
  "new_ShutdownController =
     \<lparr> timers = (\<lambda>_. new_CountdownTimer (countdownSeconds DEFAULTS)), timer_count = 1,
       timer = 0, queue = \<lparr> scheduled = [], next_handle = 0 \<rparr>,
       gateway = new_SystemPower True, activeKeys = [], ctl_state = st_idle,
       blinkToggle = False, sharedSettings = DEFAULTS, masterContext = None, trace = [] \<rparr>"

definition emit :: "effect list \<Rightarrow> ShutdownController \<Rightarrow> ShutdownController" where
  "emit es c = c\<lparr>trace := trace c @ es\<rparr>"

text \<open>
  An event as the coordinator reads it: the key that \<open>getKeyAction(ev.action)\<close> finds
  (none when the handle cannot set an image) and \<open>ev.payload.settings\<close>.
\<close>

record Event =
  ev_action :: "KeyAction option"
  ev_settings :: "ShutdownSettings option"

text \<open>\<open>Map.set\<close> keeps the place of a key that is already there; \<open>Map.delete\<close>.\<close>

fun map_set :: "'k \<Rightarrow> 'v \<Rightarrow> ('k \<times> 'v) list \<Rightarrow> ('k \<times> 'v) list" where
  "map_set k v [] = [(k, v)]"
| "map_set k v ((k', v') # kvs) =
     (if k' = k then (k, v) # kvs else (k', v') # map_set k v kvs)"

definition map_delete :: "'k \<Rightarrow> ('k \<times> 'v) list \<Rightarrow> ('k \<times> 'v) list" where
  "map_delete k kvs = filter (\<lambda>kv. fst kv \<noteq> k) kvs"

definition trackKey :: "KeyAction \<Rightarrow> Role \<Rightarrow> ShutdownController \<Rightarrow> ShutdownController" where
  "trackKey a role c =
     (let dev = orElse (device_id a) ''unknown-device''
      in c\<lparr>activeKeys :=
             map_set (key_id a)
               \<lparr> ctx_id = key_id a, ctx_action = a, ctx_role = role, deviceId = dev \<rparr>
               (activeKeys c)\<rparr>)"

definition untrackKey :: "KeyAction \<Rightarrow> ShutdownController \<Rightarrow> ShutdownController" where
  "untrackKey a c = c\<lparr>activeKeys := map_delete (key_id a) (activeKeys c)\<rparr>"

definition totalKeyCount :: "ShutdownController \<Rightarrow> nat" where
  "totalKeyCount c = length (activeKeys c)"

text \<open>\<open>getKeysPerDevice\<close>: one bucket per device id, in the order the ids first occur.\<close>

fun bucket_add :: "string \<Rightarrow> KeyAction \<Rightarrow> (string \<times> KeyAction list) list \<Rightarrow> (string \<times> KeyAction list) list" where
  "bucket_add d a [] = [(d, [a])]"
| "bucket_add d a ((d', as) # bs) =
     (if d' = d then (d', as @ [a]) # bs else (d', as) # bucket_add d a bs)"

definition getKeysPerDevice :: "ShutdownController \<Rightarrow> KeyAction list list" where
  "getKeysPerDevice c =
     map snd (foldl (\<lambda>buckets ctx. bucket_add (deviceId ctx) (ctx_action ctx) buckets) []
                (map snd (activeKeys c)))"

text \<open>The options that the two fan-out methods pass to the renderer for one device.\<close>

definition no_options :: RenderOptions where
  "no_options =
     \<lparr> opt_accentColor = None, opt_textColor = None, opt_backgroundColor = None,
       opt_gridColor = None, opt_progressColor = None, opt_progressBackground = None,
       opt_blink = None, opt_multiTileLayout = None \<rparr>"

definition countdown_options :: "NormalizedSettings \<Rightarrow> bool \<Rightarrow> int \<Rightarrow> KeyAction list \<Rightarrow> RenderOptions" where
  "countdown_options settings toggle remaining keys =
     no_options\<lparr>opt_accentColor := Some (accentColor settings),
                opt_blink := Some (if remaining \<le> 3 then toggle else False),
                opt_multiTileLayout := Some (multiTileLayout settings \<or> length keys > 1)\<rparr>"

definition message_options :: "NormalizedSettings \<Rightarrow> bool \<Rightarrow> KeyAction list \<Rightarrow> RenderOptions" where
  "message_options settings blink' keys =
     no_options\<lparr>opt_accentColor := Some (accentColor settings),
                opt_progressColor := Some (accentColor settings),
                opt_blink := Some blink',
                opt_multiTileLayout := Some (multiTileLayout settings \<or> length keys > 1)\<rparr>"

text \<open>
  The fan-out methods up to their wait: every call on the renderer and on the keys is made
  before the method waits for the first of them.
\<close>

definition renderCountdownAcrossDevices ::
  "int \<Rightarrow> NormalizedSettings \<Rightarrow> ShutdownController \<Rightarrow> ShutdownController" where
  "renderCountdownAcrossDevices remaining settings c =
     (let total' = durationSeconds (timers c (timer c));
          c1 = c\<lparr>blinkToggle := \<not> blinkToggle c\<rparr>
      in emit (map (\<lambda>keys. RenderCountdown remaining total' keys
                             (countdown_options settings (blinkToggle c1) remaining keys))
                 (getKeysPerDevice c1)) c1)"

definition renderMessageAcrossDevices ::
  "string \<Rightarrow> NormalizedSettings \<Rightarrow> bool \<Rightarrow> ShutdownController \<Rightarrow> ShutdownController" where
  "renderMessageAcrossDevices message settings blink' c =
     emit (map (\<lambda>keys. RenderMessage message keys (message_options settings blink' keys))
             (getKeysPerDevice c)) c"

definition clearTitlesAcrossDevices :: "ShutdownController \<Rightarrow> ShutdownController" where
  "clearTitlesAcrossDevices c =
     emit (concat (map (map (\<lambda>key. SetTitle (key_id key) [])) (getKeysPerDevice c))) c"

text \<open>
  \<open>renderByState\<close> up to its first wait; after the wait it clears the titles
  (\<open>clearTitlesAcrossDevices\<close>).
\<close>

definition idle_message :: "NormalizedSettings \<Rightarrow> string" where
  "idle_message settings =
     (if armed settings then ''Live mode - press to start'' else ''Preview mode - press to start'')"

definition renderByState :: "ShutdownController \<Rightarrow> ShutdownController" where
  "renderByState c =
     (if ctl_state c = st_running
      then renderCountdownAcrossDevices (remainingSeconds (timers c (timer c)))
             (sharedSettings c) c
      else let message = idle_message (sharedSettings c)
           in renderMessageAcrossDevices message (sharedSettings c) False c)"

text \<open>
  \<open>setMaster\<close> with the calls that \<open>persistMasterSettings\<close> and \<open>propagateSettings\<close>
  make before they wait.
\<close>

definition setMaster :: "string \<Rightarrow> NormalizedSettings \<Rightarrow> ShutdownController \<Rightarrow> ShutdownController" where
  "setMaster contextId settings c =
     (let c1 = c\<lparr>masterContext := Some contextId, sharedSettings := settings\<rparr>;
          c2 = (case map_of (activeKeys c1) contextId of
                  Some ctx \<Rightarrow> emit [SetSettings (key_id (ctx_action ctx)) settings] c1
                | None \<Rightarrow> c1)
      in emit (map (\<lambda>ctx. SetSettings (key_id (ctx_action ctx)) (sharedSettings c2))
                 (filter (\<lambda>ctx. ctx_role ctx = child) (map snd (activeKeys c2)))) c2)"

definition log_ctl :: "string \<Rightarrow> ShutdownController \<Rightarrow> ShutdownController" where
  "log_ctl message c = emit [Log message None] c"

definition setArmed_ctl :: "bool \<Rightarrow> ShutdownController \<Rightarrow> ShutdownController" where
  "setArmed_ctl v c = (case setArmed v (gateway c) of (p, es) \<Rightarrow> emit es (c\<lparr>gateway := p\<rparr>))"

definition register :: "Event \<Rightarrow> Role \<Rightarrow> ShutdownController \<Rightarrow> NormalizedSettings \<times> ShutdownController" where
  "register ev role c =
     (case ev_action ev of
        None \<Rightarrow> (sharedSettings c, c)
      | Some keyAction \<Rightarrow>
          let settings = normalizeSettings (ev_settings ev);
              c1 = trackKey keyAction role c;
              c2 = (if role = master then setMaster (key_id keyAction) settings c1
                    else emit [SetSettings (key_id keyAction) (sharedSettings c1)] c1);
              c3 = renderByState c2
          in (sharedSettings c3, c3))"

definition handleSettings :: "Event \<Rightarrow> Role \<Rightarrow> ShutdownController \<Rightarrow> ShutdownController" where
  "handleSettings ev role c =
     (case ev_action ev of
        None \<Rightarrow> c
      | Some keyAction \<Rightarrow>
          let settings = normalizeSettings (ev_settings ev);
              c1 = (if role = master then setMaster (key_id keyAction) settings c
                    else emit [SetSettings (key_id keyAction) (sharedSettings c)] c)
          in renderByState c1)"

text \<open>
  The callbacks that \<open>startCountdown\<close> hands to the timer, cut at their waits.
  \<open>onTick\<close>: the render, then the titles. \<open>onComplete\<close>: the render of 0, the titles,
  the power action (with the end of its command), and the return to idle.
\<close>

definition onTick_render :: "int \<Rightarrow> ShutdownController \<Rightarrow> ShutdownController" where
  "onTick_render remaining c = renderCountdownAcrossDevices remaining (sharedSettings c) c"

definition onTick_titles :: "ShutdownController \<Rightarrow> ShutdownController" where
  "onTick_titles c = clearTitlesAcrossDevices c"

definition onComplete_render :: "ShutdownController \<Rightarrow> ShutdownController" where
  "onComplete_render c = renderCountdownAcrossDevices 0 (sharedSettings c) c"

definition onComplete_titles :: "ShutdownController \<Rightarrow> ShutdownController" where
  "onComplete_titles c = clearTitlesAcrossDevices c"

definition onComplete_perform :: "Host \<Rightarrow> ShutdownController \<Rightarrow> ShutdownController" where
  "onComplete_perform host c =
     emit (snd (perform host (powerAction (sharedSettings c)) (gateway c))) c"

definition onComplete_finish :: "ShutdownController \<Rightarrow> ShutdownController" where
  "onComplete_finish c = setArmed_ctl False (c\<lparr>ctl_state := st_idle\<rparr>)"

text \<open>
  \<open>startCountdown\<close>. \<open>timer.start\<close> runs \<open>runTick\<close> up to the wait inside the first
  \<open>onTick\<close>, so all of \<open>startCountdown\<close> happens before anything else can.
\<close>

definition startCountdown :: "ShutdownController \<Rightarrow> ShutdownController" where
  "startCountdown c =
     (if totalKeyCount c = 0 then log_ctl ''No keys available to render the countdown.'' c
      else
        let c1 = (if ctl_state c \<noteq> st_running
                  then c\<lparr>timers := (timers c)(timer_count c :=
                                       new_CountdownTimer (countdownSeconds (sharedSettings c))),
                         timer := timer_count c, timer_count := Suc (timer_count c)\<rparr>
                  else c);
            c2 = setArmed_ctl (armed (sharedSettings c1)) c1
        in case start_begin (timers c2 (timer c2)) of
             (False, _) \<Rightarrow> c2
           | (True, t) \<Rightarrow>
               (onTick_render (remainingSeconds t) (c2\<lparr>timers := (timers c2)(timer c2 := t)\<rparr>))
                 \<lparr>ctl_state := st_running\<rparr>)"

text \<open>
  The call \<open>this.timer.cancel(async () => { await this.power.abortScheduled(); })\<close>, made
  by \<open>cancelCountdown\<close> and by \<open>unregister\<close>: \<open>cancel\<close> up to the end of the callback,
  with the answer whether the timer was running, and \<open>cancel\<close> after the callback, on the
  timer object the call was made on.
\<close>

definition timer_cancel_call :: "Host \<Rightarrow> ShutdownController \<Rightarrow> bool \<times> ShutdownController" where
  "timer_cancel_call host c =
     (case cancel_begin (timers c (timer c)) (queue c) of
        (False, _, _) \<Rightarrow> (False, c)
      | (True, t, lp) \<Rightarrow>
          (True, emit (snd (abortScheduled host (gateway c)))
                   (c\<lparr>timers := (timers c)(timer c := t), queue := lp\<rparr>)))"

definition timer_cancel_returns :: "nat \<Rightarrow> ShutdownController \<Rightarrow> ShutdownController" where
  "timer_cancel_returns ref c = c\<lparr>timers := (timers c)(ref := cancel_end (timers c ref))\<rparr>"

text \<open>
  \<open>cancelCountdown\<close> after \<open>timer.cancel\<close> has resolved to \<open>true\<close>, cut at its waits:
  the Cancelled message, the titles, the second message, the titles. When \<open>cancel\<close>
  resolves to \<open>false\<close> nothing follows.
\<close>

definition cancelCountdown_cancelled :: "nat \<Rightarrow> ShutdownController \<Rightarrow> ShutdownController" where
  "cancelCountdown_cancelled ref c =
     (let c1 = timer_cancel_returns ref c;
          c2 = setArmed_ctl False (c1\<lparr>ctl_state := st_cancelled\<rparr>)
      in renderMessageAcrossDevices ''Cancelled'' (sharedSettings c2) True c2)"

definition cancelCountdown_titles :: "ShutdownController \<Rightarrow> ShutdownController" where
  "cancelCountdown_titles c = clearTitlesAcrossDevices c"

definition cancelCountdown_rest :: "ShutdownController \<Rightarrow> ShutdownController" where
  "cancelCountdown_rest c =
     (let c1 = c\<lparr>ctl_state := st_idle\<rparr>
      in renderMessageAcrossDevices ''Shutdown'' (sharedSettings c1) False c1)"

definition cancelCountdown_last_titles :: "ShutdownController \<Rightarrow> ShutdownController" where
  "cancelCountdown_last_titles c = clearTitlesAcrossDevices c"

text \<open>\<open>handleKeyDown\<close> up to its first wait.\<close>

definition handleKeyDown :: "Host \<Rightarrow> Event \<Rightarrow> Role \<Rightarrow> ShutdownController \<Rightarrow> ShutdownController" where
  "handleKeyDown host ev role c =
     (case ev_action ev of
        None \<Rightarrow> c
      | Some keyAction \<Rightarrow>
          let c1 = (if role = master
                    then setMaster (key_id keyAction) (normalizeSettings (ev_settings ev)) c
                    else c)
          in if ctl_state c1 = st_running then snd (timer_cancel_call host c1)
             else startCountdown (setArmed_ctl (armed (sharedSettings c1)) c1))"

text \<open>\<open>unregister\<close>, which does not wait for anything it starts.\<close>

definition unregister :: "Host \<Rightarrow> Event \<Rightarrow> Role \<Rightarrow> ShutdownController \<Rightarrow> ShutdownController" where
  "unregister host ev role c =
     (case ev_action ev of
        None \<Rightarrow> c
      | Some keyAction \<Rightarrow>
          let c1 = untrackKey keyAction c;
              c2 = (if totalKeyCount c1 = 0 \<and> ctl_state c1 = st_running
                    then let c3 = snd (timer_cancel_call host c1);
                             c4 = c3\<lparr>ctl_state := st_idle\<rparr>;
                             c5 = renderMessageAcrossDevices ''Cancelled'' (sharedSettings c4)
                                    False c4
                         in clearTitlesAcrossDevices c5
                    else c1)
          in if role = master \<and> masterContext c2 = Some (key_id keyAction)
             then c2\<lparr>masterContext := None\<rparr>
             else c2)"

text \<open>
  The timer at work inside the coordinator: \<open>runTick\<close> of the timer object \<open>ref\<close> goes on
  when its \<open>onTick\<close> has returned, and the timeout \<open>h\<close> of that timer fires.
\<close>

definition tick_returns :: "nat \<Rightarrow> ShutdownController \<Rightarrow> ShutdownController" where
  "tick_returns ref c =
     (case runTick_after (timers c ref) (queue c) of
        (Stopped, t, lp) \<Rightarrow> c\<lparr>timers := (timers c)(ref := t), queue := lp\<rparr>
      | (Completed, t, lp) \<Rightarrow> onComplete_render (c\<lparr>timers := (timers c)(ref := t), queue := lp\<rparr>)
      | (Waiting, t, lp) \<Rightarrow> c\<lparr>timers := (timers c)(ref := t), queue := lp\<rparr>)"

definition timeout_fires :: "nat \<Rightarrow> nat \<Rightarrow> ShutdownController \<Rightarrow> ShutdownController" where
  "timeout_fires ref h c =
     (if h \<notin> set (scheduled (queue c)) then c
      else let c1 = c\<lparr>queue := clearTimeout h (queue c)\<rparr>
           in case timeout_fired (timers c1 ref) of
                (False, _) \<Rightarrow> c1
              | (True, t) \<Rightarrow>
                  onTick_render (remainingSeconds t) (c1\<lparr>timers := (timers c1)(ref := t)\<rparr>))"

text \<open>The messages that were handed to the renderer, in order.\<close>

fun messages :: "effect list \<Rightarrow> string list" where
  "messages [] = []"
| "messages (RenderMessage m _ _ # es) = m # messages es"
| "messages (_ # es) = messages es"

text \<open>
  The calls of \<open>abortScheduled\<close> that show in some effects of a gateway that logs: each
  call either logs that it skips or starts \<open>shutdown /a\<close>.
\<close>

fun abort_calls :: "effect list \<Rightarrow> nat" where
  "abort_calls [] = 0"
| "abort_calls (e # es) =
     (if e = Log ''abort skipped (not armed)'' None
         \<or> e = Log ''abort skipped (non-Windows)'' None
         \<or> e = Exec ''shutdown'' [''/a'']
      then Suc (abort_calls es) else abort_calls es)"

section \<open>Notions for the statements\<close>

text \<open>
  The two ways in which \<open>renderCountdown\<close> and \<open>renderMessage\<close> render some tiles: all
  of them from one canvas laid out over all of them, or each from a canvas of its own.
  \<open>content\<close> draws the content for a layout.
\<close>

definition composite ::
  "(string \<Rightarrow> string) \<Rightarrow> (Layout \<Rightarrow> string) \<Rightarrow> DisplayStyle \<Rightarrow> Tile list \<Rightarrow> (string \<times> string) list" where
  "composite enc content style tiles =
     (case buildLayout tiles of
        None \<Rightarrow> []
      | Some layout \<Rightarrow> renderAcrossTiles enc tiles layout (content layout) style)"

definition per_tile ::
  "(string \<Rightarrow> string) \<Rightarrow> (Layout \<Rightarrow> string) \<Rightarrow> DisplayStyle \<Rightarrow> Tile list \<Rightarrow> (string \<times> string) list" where
  "per_tile enc content style tiles =
     concat (map (\<lambda>tile. composite enc content style [tile]) tiles)"

text \<open>The layout of one tile alone, and the layout of two tiles side by side.\<close>

definition single_layout :: "Tile \<Rightarrow> Layout" where
  "single_layout tile =
     \<lparr> tileSize = 200, minCol = col tile, minRow = row tile, columns = 1, rows = 1,
       widthPx = 200, heightPx = 200 \<rparr>"

definition two_by_one :: "int \<Rightarrow> int \<Rightarrow> Layout" where
  "two_by_one c r =
     \<lparr> tileSize = 200, minCol = c, minRow = r, columns = 2, rows = 1,
       widthPx = 400, heightPx = 200 \<rparr>"

definition has_coordinates :: "KeyAction \<Rightarrow> bool" where
  "has_coordinates k = (coordinates k \<noteq> None)"

text \<open>The progress that \<open>renderCountdown\<close> passes on: \<open>1 - remaining / total\<close>, clamped.\<close>

definition countdown_progress :: "int \<Rightarrow> int \<Rightarrow> real" where
  "countdown_progress remaining totalSeconds =
     (if totalSeconds > 0
      then 1 - max 0 (min 1 (real_of_int remaining / real_of_int totalSeconds))
      else 1)"

text \<open>
  Cropping: the document that shows a graphic through the square window of a given size
  at the pixel offset \<open>(x, y)\<close>; the pixels of such a window; the pixels of the canvas
  of a layout.
\<close>

definition cropped :: "string \<Rightarrow> int \<Rightarrow> int \<Rightarrow> int \<Rightarrow> string" where
  \<open>cropped graphic x y size' =
     ''<svg xmlns="http://www.w3.org/2000/svg" viewBox="'' @ show_int x @ '' '' @ show_int y
     @ '' '' @ show_int size' @ '' '' @ show_int size' @ ''" width="200" height="200">''
     @ graphic @ ''</svg>''\<close>

definition in_window :: "int \<Rightarrow> int \<Rightarrow> int \<Rightarrow> int \<times> int \<Rightarrow> bool" where
  "in_window x y size' p = (x \<le> fst p \<and> fst p < x + size' \<and> y \<le> snd p \<and> snd p < y + size')"

definition on_canvas :: "Layout \<Rightarrow> int \<times> int \<Rightarrow> bool" where
  "on_canvas layout p =
     (0 \<le> fst p \<and> fst p < widthPx layout \<and> 0 \<le> snd p \<and> snd p < heightPx layout)"

text \<open>
  The length of the dash that \<open>progressSweep\<close> draws for a progress: the circumference
  of the ring times the clamped progress.
\<close>

definition dash_length :: "Layout \<Rightarrow> real \<Rightarrow> real" where
  "dash_length layout progress =
     2 * pi * (real_of_int (min (widthPx layout) (heightPx layout)) / 2
               - real_of_int (tileSize layout) * (12 / 100))
     * max 0 (min 1 progress)"

text \<open>
  The parts of a message's document that stand around the text. \<open>text_open\<close> is the
  opening of the text element for a text of \<open>n\<close> characters, \<open>text_close\<close> its end;
  \<open>document_open\<close> is everything of a tile's document before the text, and
  \<open>document_close\<close> everything after it. None of them is given the message.
\<close>

definition text_open :: "(real \<Rightarrow> string) \<Rightarrow> nat \<Rightarrow> Layout \<Rightarrow> DisplayStyle \<Rightarrow> string" where
  \<open>text_open fmt n layout style =
     (let isMulti = (columns layout > 1 \<or> rows layout > 1);
          padding = (if isMulti
                     then max (real_of_int (tileSize layout) * (16 / 100))
                              (real_of_int (widthPx layout) * (5 / 100))
                     else real_of_int (tileSize layout) * (12 / 100));
          maxFontByWidth = (real_of_int (widthPx layout) - padding * 2)
                           / max 3 (real n * (62 / 100));
          maxFontByHeight = real_of_int (heightPx layout) * (38 / 100);
          fontSize = min maxFontByWidth maxFontByHeight;
          leftInset = (if isMulti
                       then max (real_of_int (tileSize layout) * (8 / 100))
                                (real_of_int (widthPx layout) * (32 / 1000))
                       else 0);
          centerX = real_of_int (widthPx layout) / 2 - leftInset;
          centerY = real_of_int (heightPx layout) / 2 + fontSize / 3
      in ''<g filter="url(#digit-glow)">'' @ nl 3
         @ ''<text x="'' @ fmt centerX @ ''" y="'' @ fmt centerY
         @ ''" fill="'' @ text_colour style
         @ ''" font-family="Segoe UI Semibold,Segoe UI,Arial" font-size="'' @ fmt fontSize
         @ ''" text-anchor="middle" letter-spacing="'' @ fmt (fontSize * (38 / 1000))
         @ ''" dominant-baseline="middle">'')\<close>

definition text_close :: string where
  "text_close = ''</text>'' @ nl 2 @ ''</g>''"

definition document_open ::
  "(real \<Rightarrow> string) \<Rightarrow> nat \<Rightarrow> Layout \<Rightarrow> DisplayStyle \<Rightarrow> Tile \<Rightarrow> string" where
  \<open>document_open fmt n layout style tile =
     ''<svg xmlns="http://www.w3.org/2000/svg" viewBox="''
     @ show_int ((col tile - minCol layout) * tileSize layout) @ '' ''
     @ show_int ((row tile - minRow layout) * tileSize layout) @ '' ''
     @ show_int (tileSize layout) @ '' '' @ show_int (tileSize layout)
     @ ''" width="200" height="200">''
     @ buildDefs style @ baseBackground layout style @ gridLines layout style
     @ text_open fmt n layout style\<close>

definition document_close :: string where
  "document_close = text_close @ ''</svg>''"

text \<open>A timer after the first part of a successful \<open>cancel\<close>, and the timer queue after it.\<close>

definition cancelled_timer :: "CountdownTimer \<Rightarrow> CountdownTimer" where
  "cancelled_timer t =
     \<lparr> durationSeconds = durationSeconds t, state = cancelled, remainingSeconds = 0,
       timeout = None \<rparr>"

definition cleared :: "CountdownTimer \<Rightarrow> EventLoop \<Rightarrow> EventLoop" where
  "cleared t lp = (case timeout t of Some h \<Rightarrow> clearTimeout h lp | None \<Rightarrow> lp)"

text \<open>
  A concrete installation: two keys side by side on one device, a Windows host whose
  commands succeed, and the master's event with a duration of 5 seconds and the gate
  armed.
\<close>

definition key1 :: KeyAction where
  "key1 = \<lparr> key_id = ''key1'', device_id = Some ''deck'', coordinates = Some (0, 0) \<rparr>"

definition key2 :: KeyAction where
  "key2 = \<lparr> key_id = ''key2'', device_id = Some ''deck'', coordinates = Some (1, 0) \<rparr>"

definition windows_host :: Host where
  "windows_host = \<lparr> platform = ''win32'', execFile = (\<lambda>command args. Inr ()) \<rparr>"

definition armed_five :: Event where
  "armed_five =
     \<lparr> ev_action = Some key1,
       ev_settings = Some (no_settings\<lparr>countdownSeconds_opt := Some (Finite 5),
                                       armed_opt := Some True\<rparr>) \<rparr>"

text \<open>
  The phases of \<open>cancelCountdown\<close> that follow a successful \<open>cancel\<close>, one after the
  other with nothing in between.
\<close>

definition cancel_phases :: "nat \<Rightarrow> ShutdownController \<Rightarrow> ShutdownController" where
  "cancel_phases ref c =
     cancelCountdown_last_titles
       (cancelCountdown_rest (cancelCountdown_titles (cancelCountdown_cancelled ref c)))"

text \<open>
  A run of the installation with the one key \<open>key1\<close>. \<open>counting\<close>: the master key has
  appeared and has been pressed, so the countdown from 5 has started and its first
  \<open>onTick\<close> waits for the render. \<open>second\<close>: the titles are cleared, \<open>onTick\<close> returns,
  the timer sets its timeout \<open>h\<close>, the timeout fires and the next \<open>onTick\<close> renders.
  \<open>final_frame\<close>: five seconds later \<open>onTick(0)\<close> has returned, the timer has gone to
  idle and called \<open>onComplete\<close>, which waits for the render of the last frame.
\<close>

definition second :: "nat \<Rightarrow> nat \<Rightarrow> ShutdownController \<Rightarrow> ShutdownController" where
  "second ref h c = timeout_fires ref h (tick_returns ref (onTick_titles c))"

definition counting :: ShutdownController where
  "counting = handleKeyDown windows_host armed_five master
                (snd (register armed_five master new_ShutdownController))"

definition final_frame :: ShutdownController where
  "final_frame =
     tick_returns 1 (onTick_titles
       (second 1 4 (second 1 3 (second 1 2 (second 1 1 (second 1 0 counting))))))"

section \<open>Properties of settings normalisation\<close>

lemma clampSeconds_range: "5 \<le> clampSeconds n \<and> clampSeconds n \<le> 30"
  by (cases n) (simp_all add: clampSeconds_def DEFAULTS_def)

lemma clampSeconds_of_int:
  "5 \<le> k \<Longrightarrow> k \<le> 30 \<Longrightarrow> clampSeconds (Finite (of_int k)) = k"
proof -
  assume k: "5 \<le> k" "k \<le> 30"
  have "\<lfloor>(of_int k :: rat) + 1 / 2\<rfloor> = k"
    by linarith
  with k show ?thesis
    by (simp add: clampSeconds_def round_half_up_def)
qed

lemma clampSeconds_idem: "clampSeconds (Finite (of_int (clampSeconds n))) = clampSeconds n"
  using clampSeconds_range [of n] by (simp add: clampSeconds_of_int)

lemma lower_char_hex:
  "is_hex_digit c \<Longrightarrow> is_hex_digit (lower_char c) \<and> lower_char (lower_char c) = lower_char c"
  unfolding is_hex_digit_def
  apply (simp only: list.set insert_iff empty_iff)
  apply (elim disjE)
  apply (simp_all add: lower_char_def)
  done

lemma lower_char_hash: "lower_char CHR ''#'' = CHR ''#''"
  by (simp add: lower_char_def)

lemma toLowerCase_hex:
  "list_all is_hex_digit h \<Longrightarrow>
     list_all is_hex_digit (toLowerCase h) \<and> toLowerCase (toLowerCase h) = toLowerCase h"
  by (induction h) (simp_all add: toLowerCase_def lower_char_hex)

lemma normalizeColor_valid:
  "length h = 6 \<Longrightarrow> list_all is_hex_digit h \<Longrightarrow>
     normalizeColor (CHR ''#'' # h) = CHR ''#'' # toLowerCase h"
  by (simp add: normalizeColor_def toLowerCase_def lower_char_hash)

lemma normalizeColor_default: "normalizeColor (accentColor DEFAULTS) = accentColor DEFAULTS"
proof -
  have "list_all is_hex_digit ''00d37f''"
    by (simp add: is_hex_digit_def)
  then have "normalizeColor ''#00d37f'' = CHR ''#'' # toLowerCase ''00d37f''"
    by (intro normalizeColor_valid) simp_all
  also have "toLowerCase ''00d37f'' = ''00d37f''"
    by (simp add: toLowerCase_def lower_char_def)
  finally show ?thesis
    by (simp add: DEFAULTS_def)
qed

lemma normalizeColor_cases:
  "normalizeColor c = accentColor DEFAULTS
   \<or> (\<exists>h. length h = 6 \<and> list_all is_hex_digit h \<and> normalizeColor c = CHR ''#'' # toLowerCase h)"
proof (cases "c = []")
  case True
  then show ?thesis by (simp add: normalizeColor_def)
next
  case False
  define hex where "hex = (if hd c = CHR ''#'' then tl c else c)"
  show ?thesis
  proof (cases "length hex = 6 \<and> list_all is_hex_digit hex")
    case True
    with False have "normalizeColor c = CHR ''#'' # toLowerCase hex"
      unfolding normalizeColor_def hex_def [symmetric] Let_def
      by (simp add: toLowerCase_def lower_char_hash)
    with True show ?thesis by blast
  next
    case no: False
    with False have "normalizeColor c = accentColor DEFAULTS"
      unfolding normalizeColor_def hex_def [symmetric] Let_def by auto
    then show ?thesis by simp
  qed
qed

lemma normalizeColor_idem: "normalizeColor (normalizeColor c) = normalizeColor c"
proof -
  from normalizeColor_cases [of c] show ?thesis
  proof (elim disjE exE conjE)
    assume "normalizeColor c = accentColor DEFAULTS"
    then show ?thesis by (simp add: normalizeColor_default)
  next
    fix h
    assume h: "length h = 6" "list_all is_hex_digit h"
      and out: "normalizeColor c = CHR ''#'' # toLowerCase h"
    from h have "length (toLowerCase h) = 6" "list_all is_hex_digit (toLowerCase h)"
      by (simp_all add: toLowerCase_hex) (simp add: toLowerCase_def)
    then have "normalizeColor (CHR ''#'' # toLowerCase h) = CHR ''#'' # toLowerCase (toLowerCase h)"
      by (rule normalizeColor_valid)
    with h out show ?thesis by (simp add: toLowerCase_hex)
  qed
qed

lemma normalizePowerAction_idem:
  "normalizePowerAction (Some (normalizePowerAction a)) = normalizePowerAction a"
  by (auto simp add: normalizePowerAction_def DEFAULTS_def split: option.splits)

text \<open>
  C5. Normalising an already normalised settings value returns the identical value; the
  invalid colour \<open>ZZZZZZ\<close> becomes the default \<open>#00d37f\<close>, a duration of 1 becomes 5 and
  a duration of 999 becomes 30.
\<close>

theorem normalizeSettings_idempotent:
  "normalizeSettings (Some (as_payload (normalizeSettings s))) = normalizeSettings s
   \<and> accentColor (normalizeSettings (Some (no_settings\<lparr>accentColor_opt := Some ''ZZZZZZ''\<rparr>)))
       = ''#00d37f''
   \<and> countdownSeconds (normalizeSettings (Some (no_settings\<lparr>countdownSeconds_opt := Some (Finite 1)\<rparr>)))
       = 5
   \<and> countdownSeconds (normalizeSettings (Some (no_settings\<lparr>countdownSeconds_opt := Some (Finite 999)\<rparr>)))
       = 30"
proof -
  have idem: "normalizeSettings (Some (as_payload (normalizeSettings s))) = normalizeSettings s"
    by (simp add: normalizeSettings_def as_payload_def field_def Let_def
        normalizeColor_idem clampSeconds_idem normalizePowerAction_idem)
  have colour: "normalizeColor ''ZZZZZZ'' = ''#00d37f''"
    by (simp add: normalizeColor_def is_hex_digit_def DEFAULTS_def)
  have low: "clampSeconds (Finite 1) = 5"
    by (simp add: clampSeconds_def round_half_up_def)
  have high: "clampSeconds (Finite 999) = 30"
    by (simp add: clampSeconds_def round_half_up_def)
  show ?thesis
    using idem colour low high
    by (simp add: normalizeSettings_def no_settings_def field_def Let_def)
qed

section \<open>Properties of the countdown timer\<close>

lemma ticks_append: "ticks (xs @ ys) = ticks xs @ ticks ys"
  by (induction xs rule: ticks.induct) simp_all

lemma run_tick_step:
  "0 < awaiting_onTick s \<Longrightarrow> run (Suc n) s = run n (sys_onTick_returns s)"
  by simp

lemma run_fire_step:
  "awaiting_onTick s = 0 \<Longrightarrow> scheduled (loop s) = h # hs \<Longrightarrow>
     run (Suc n) s = run n (sys_timeout_fires h s)"
  by simp

lemma run_done: "awaiting_onTick s = 0 \<Longrightarrow> scheduled (loop s) = [] \<Longrightarrow> run n s = Some s"
  by (cases n) simp_all

declare run.simps [simp del]

text \<open>
  A running timer with \<open>r\<close> seconds remaining whose \<open>onTick(r)\<close> is pending, and nothing
  else pending, counts down to 0 and completes.
\<close>

lemma run_countdown:
  "state (tmr s) = running \<Longrightarrow> remainingSeconds (tmr s) = int r \<Longrightarrow>
   awaiting_onTick s = 1 \<Longrightarrow> scheduled (loop s) = [] \<Longrightarrow>
   \<exists>s'. run (2 * r + 1) s = Some s'
      \<and> observed s' = observed s @ map Tick (tl (countdown_from r)) @ [Complete]
      \<and> state (tmr s') = idle \<and> remainingSeconds (tmr s') = 0 \<and> timeout (tmr s') = None
      \<and> awaiting_onTick s' = 0 \<and> scheduled (loop s') = []
      \<and> awaiting_onCancel s' = awaiting_onCancel s"
proof (induction r arbitrary: s)
  case 0
  let ?s1 = "sys_onTick_returns s"
  from 0 have s1: "?s1 = s\<lparr>awaiting_onTick := 0, tmr := (tmr s)\<lparr>timeout := None, state := idle\<rparr>,
      observed := observed s @ [Complete]\<rparr>"
    by (simp add: sys_onTick_returns_def runTick_after_def)
  have "run (2 * 0 + 1) s = run 0 ?s1"
    using 0 by (simp add: run_tick_step)
  also have "\<dots> = Some ?s1"
    using 0 by (intro run_done) (simp_all add: s1)
  finally show ?case
    using 0 by (simp add: s1)
next
  case (Suc r)
  let ?s1 = "sys_onTick_returns s"
  let ?h = "next_handle (loop s)"
  from Suc.prems have s1: "?s1 = s\<lparr>awaiting_onTick := 0,
      tmr := (tmr s)\<lparr>timeout := Some ?h\<rparr>,
      loop := (loop s)\<lparr>scheduled := [?h], next_handle := Suc ?h\<rparr>\<rparr>"
    by (simp add: sys_onTick_returns_def runTick_after_def setTimeout_def)
  let ?s2 = "sys_timeout_fires ?h ?s1"
  from Suc.prems have s2: "?s2 = s\<lparr>awaiting_onTick := 1,
      tmr := (tmr s)\<lparr>timeout := Some ?h, remainingSeconds := int r\<rparr>,
      loop := (loop s)\<lparr>scheduled := [], next_handle := Suc ?h\<rparr>,
      observed := observed s @ [Tick (int r)]\<rparr>"
    by (simp add: s1 sys_timeout_fires_def timeout_fired_def clearTimeout_def runTick_call_def)
  have "run (2 * Suc r + 1) s = run (Suc (2 * r + 1)) ?s1"
    using Suc.prems by (simp add: run_tick_step)
  also have "\<dots> = run (2 * r + 1) ?s2"
    by (rule run_fire_step [where hs = "[]"]) (simp_all add: s1)
  finally have step: "run (2 * Suc r + 1) s = run (2 * r + 1) ?s2" .
  have "\<exists>s'. run (2 * r + 1) ?s2 = Some s'
      \<and> observed s' = observed ?s2 @ map Tick (tl (countdown_from r)) @ [Complete]
      \<and> state (tmr s') = idle \<and> remainingSeconds (tmr s') = 0 \<and> timeout (tmr s') = None
      \<and> awaiting_onTick s' = 0 \<and> scheduled (loop s') = []
      \<and> awaiting_onCancel s' = awaiting_onCancel ?s2"
    using Suc.prems by (intro Suc.IH) (simp_all add: s2)
  then obtain s' where s': "run (2 * r + 1) ?s2 = Some s'"
      "observed s' = observed ?s2 @ map Tick (tl (countdown_from r)) @ [Complete]"
      "state (tmr s') = idle" "remainingSeconds (tmr s') = 0" "timeout (tmr s') = None"
      "awaiting_onTick s' = 0" "scheduled (loop s') = []"
      "awaiting_onCancel s' = awaiting_onCancel ?s2"
    by blast
  have "Tick (int r) # map Tick (tl (countdown_from r)) = map Tick (countdown_from r)"
    by (cases r) simp_all
  with s' step show ?case
    by (simp add: s2)
qed

lemma countdown_from_length: "length (countdown_from n) = Suc n"
  by (induction n) simp_all

lemma countdown_from_nth: "i \<le> n \<Longrightarrow> countdown_from n ! i = int n - int i"
proof (induction n arbitrary: i)
  case 0
  then show ?case by simp
next
  case (Suc n)
  then show ?case by (cases i) simp_all
qed

lemma countdown_from_distinct: "distinct (countdown_from n)"
proof -
  have "i < length (countdown_from n) \<Longrightarrow> j < length (countdown_from n) \<Longrightarrow> i \<noteq> j \<Longrightarrow>
          countdown_from n ! i \<noteq> countdown_from n ! j" for i j
    by (simp add: countdown_from_length countdown_from_nth)
  then show ?thesis
    by (simp add: distinct_conv_nth)
qed

text \<open>
  C1. For every duration \<open>d\<close> from 5 to 30, a fresh timer that is started and left alone
  comes to rest, and by then \<open>onTick\<close> has been called exactly \<open>d + 1\<close> times, with
  \<open>d, d - 1, ..., 0\<close> in this order (no value twice, none left out), and after that
  \<open>onComplete\<close> exactly once.
\<close>

theorem countdown_runs_to_completion:
  assumes "5 \<le> d" and "d \<le> 30"
  shows "fst (sys_start (fresh_sys d))
    \<and> (\<exists>s'. run (2 * nat d + 1) (snd (sys_start (fresh_sys d))) = Some s'
          \<and> observed s' = map Tick (countdown_from (nat d)) @ [Complete]
          \<and> length (countdown_from (nat d)) = nat d + 1
          \<and> distinct (countdown_from (nat d))
          \<and> hd (countdown_from (nat d)) = d \<and> last (countdown_from (nat d)) = 0
          \<and> state (tmr s') = idle)"
proof -
  let ?s = "snd (sys_start (fresh_sys d))"
  have started: "fst (sys_start (fresh_sys d))"
    and s: "state (tmr ?s) = running" "remainingSeconds (tmr ?s) = d"
      "awaiting_onTick ?s = 1" "scheduled (loop ?s) = []" "observed ?s = [Tick d]"
    by (simp_all add: sys_start_def start_begin_def fresh_sys_def new_CountdownTimer_def
        runTick_call_def)
  from assms s have "\<exists>s'. run (2 * nat d + 1) ?s = Some s'
      \<and> observed s' = observed ?s @ map Tick (tl (countdown_from (nat d))) @ [Complete]
      \<and> state (tmr s') = idle \<and> remainingSeconds (tmr s') = 0 \<and> timeout (tmr s') = None
      \<and> awaiting_onTick s' = 0 \<and> scheduled (loop s') = []
      \<and> awaiting_onCancel s' = awaiting_onCancel ?s"
    by (intro run_countdown) simp_all
  then obtain s' where s': "run (2 * nat d + 1) ?s = Some s'"
      "observed s' = observed ?s @ map Tick (tl (countdown_from (nat d))) @ [Complete]"
      "state (tmr s') = idle"
    by blast
  from assms obtain m where m: "nat d = Suc m"
    by (cases "nat d") simp_all
  with assms have hd_d: "hd (countdown_from (nat d)) = d"
    by simp
  from m assms have "Tick d # map Tick (tl (countdown_from (nat d))) = map Tick (countdown_from (nat d))"
    by simp
  with s' s have obs: "observed s' = map Tick (countdown_from (nat d)) @ [Complete]"
    by simp
  have "last (countdown_from (nat d)) = countdown_from (nat d) ! nat d"
    by (subst last_conv_nth) (simp_all add: countdown_from_length m)
  then have "last (countdown_from (nat d)) = 0"
    by (simp add: countdown_from_nth)
  with s' obs hd_d started show ?thesis
    by (simp add: countdown_from_length countdown_from_distinct)
qed

theorem countdown_runs_to_completion_witness:
  "fst (sys_start (fresh_sys 5))
    \<and> (\<exists>s'. run 11 (snd (sys_start (fresh_sys 5))) = Some s'
          \<and> observed s' = [Tick 5, Tick 4, Tick 3, Tick 2, Tick 1, Tick 0, Complete])"
  using countdown_runs_to_completion [of 5]
  by (auto simp add: eval_nat_numeral)

text \<open>
  C7. \<open>start\<close> on a timer that is running returns \<open>false\<close> and leaves everything as it
  was: the remaining seconds, the pending tick and the set timeout, and no callback is
  called.
\<close>

theorem start_while_running:
  "state (tmr s) = running \<Longrightarrow> sys_start s = (False, s)"
  by (simp add: sys_start_def start_begin_def)

theorem start_while_running_witness:
  "state (tmr (snd (sys_start (fresh_sys 7)))) = running
   \<and> sys_start (snd (sys_start (fresh_sys 7))) = (False, snd (sys_start (fresh_sys 7)))"
proof -
  have r: "state (tmr (snd (sys_start (fresh_sys 7)))) = running"
    by (simp add: sys_start_def start_begin_def fresh_sys_def new_CountdownTimer_def
        runTick_call_def)
  from r start_while_running [OF r] show ?thesis by simp
qed

lemma act_not_running:
  assumes "state (tmr s) \<noteq> running" and "a \<noteq> Start"
  shows "state (tmr (act a s)) \<noteq> running \<and> ticks (observed (act a s)) = ticks (observed s)"
proof (cases a)
  case Start
  with assms show ?thesis by simp
next
  case (Cancel cb)
  with assms show ?thesis by (simp add: sys_cancel_def cancel_begin_def)
next
  case Dispose
  then show ?thesis
    by (simp add: sys_dispose_def dispose_def clearTimeout_def split: option.splits)
next
  case OnTickReturns
  with assms show ?thesis by (simp add: sys_onTick_returns_def runTick_after_def)
next
  case OnCancelReturns
  with assms show ?thesis by (simp add: sys_onCancel_returns_def cancel_end_def)
next
  case (TimeoutFires h)
  with assms show ?thesis by (simp add: sys_timeout_fires_def timeout_fired_def)
qed

lemma acts_not_running:
  "state (tmr s) \<noteq> running \<Longrightarrow> Start \<notin> set as \<Longrightarrow>
     state (tmr (acts as s)) \<noteq> running \<and> ticks (observed (acts as s)) = ticks (observed s)"
proof (induction as arbitrary: s)
  case Nil
  then show ?case by simp
next
  case (Cons a as)
  from Cons.prems have a: "a \<noteq> Start" and rest: "Start \<notin> set as"
    by auto
  from act_not_running [OF Cons.prems(1) a]
  have "state (tmr (act a s)) \<noteq> running" and t: "ticks (observed (act a s)) = ticks (observed s)"
    by simp_all
  from Cons.IH [OF this(1) rest] t show ?case
    by simp
qed

lemma sys_cancel_running:
  assumes "state (tmr s) = running"
  shows "sys_cancel cb s =
     (if cb then None else Some True,
      s\<lparr>tmr := (tmr s)\<lparr>timeout := None, state := if cb then cancelled else idle,
                       remainingSeconds := 0\<rparr>,
        loop := (case timeout (tmr s) of Some h \<Rightarrow> clearTimeout h (loop s) | None \<Rightarrow> loop s),
        observed := (if cb then observed s @ [CancelCallback] else observed s),
        awaiting_onCancel := (if cb then Suc (awaiting_onCancel s) else awaiting_onCancel s)\<rparr>)"
  using assms
  by (cases "timeout (tmr s)") (simp_all add: sys_cancel_def cancel_begin_def cancel_end_def)

text \<open>
  C6. \<open>cancel\<close> on a timer that is not running resolves to \<open>false\<close> and changes nothing,
  so it calls no callback. On a running timer it takes the set timeout out of the queue,
  makes the state cancelled and the remaining seconds 0 and calls the callback, when
  there is one, once; when the callback's promise resolves (at once when there is no
  callback) the state becomes idle and \<open>cancel\<close> resolves to \<open>true\<close>. From the call of
  \<open>cancel\<close> on, whatever happens to the timer short of a new \<open>start\<close>, \<open>onTick\<close> is not
  called again, so no value below the remaining seconds is observed.
\<close>

theorem cancel_contract:
  "(state (tmr s) \<noteq> running \<longrightarrow> sys_cancel cb s = (Some False, s))
   \<and> (state (tmr s) = running \<longrightarrow>
        (\<exists>s1 s2. sys_cancel True s = (None, s1)
            \<and> state (tmr s1) = cancelled \<and> remainingSeconds (tmr s1) = 0
            \<and> timeout (tmr s1) = None
            \<and> (\<forall>h. timeout (tmr s) = Some h \<longrightarrow> h \<notin> set (scheduled (loop s1)))
            \<and> observed s1 = observed s @ [CancelCallback]
            \<and> sys_onCancel_returns s1 = (Some True, s2)
            \<and> state (tmr s2) = idle \<and> remainingSeconds (tmr s2) = 0
            \<and> observed s2 = observed s1)
        \<and> (\<exists>s2. sys_cancel False s = (Some True, s2)
            \<and> state (tmr s2) = idle \<and> remainingSeconds (tmr s2) = 0
            \<and> timeout (tmr s2) = None
            \<and> (\<forall>h. timeout (tmr s) = Some h \<longrightarrow> h \<notin> set (scheduled (loop s2)))
            \<and> observed s2 = observed s)
        \<and> (\<forall>as. Start \<notin> set as \<longrightarrow>
              ticks (observed (acts as (snd (sys_cancel cb s)))) = ticks (observed s)))"
proof (intro conjI impI)
  assume "state (tmr s) \<noteq> running"
  then show "sys_cancel cb s = (Some False, s)"
    by (simp add: sys_cancel_def cancel_begin_def)
next
  assume r: "state (tmr s) = running"
  let ?s1 = "snd (sys_cancel True s)"
  let ?s2 = "snd (sys_onCancel_returns ?s1)"
  have "sys_cancel True s = (None, ?s1)"
    and "state (tmr ?s1) = cancelled" and "remainingSeconds (tmr ?s1) = 0"
    and "timeout (tmr ?s1) = None"
    and "\<forall>h. timeout (tmr s) = Some h \<longrightarrow> h \<notin> set (scheduled (loop ?s1))"
    and "observed ?s1 = observed s @ [CancelCallback]"
    and "sys_onCancel_returns ?s1 = (Some True, ?s2)"
    and "state (tmr ?s2) = idle" and "remainingSeconds (tmr ?s2) = 0"
    and "observed ?s2 = observed ?s1"
    by (simp_all add: sys_cancel_running [OF r] sys_onCancel_returns_def cancel_end_def
        clearTimeout_def)
  then show "\<exists>s1 s2. sys_cancel True s = (None, s1)
            \<and> state (tmr s1) = cancelled \<and> remainingSeconds (tmr s1) = 0
            \<and> timeout (tmr s1) = None
            \<and> (\<forall>h. timeout (tmr s) = Some h \<longrightarrow> h \<notin> set (scheduled (loop s1)))
            \<and> observed s1 = observed s @ [CancelCallback]
            \<and> sys_onCancel_returns s1 = (Some True, s2)
            \<and> state (tmr s2) = idle \<and> remainingSeconds (tmr s2) = 0
            \<and> observed s2 = observed s1"
    by blast
next
  assume r: "state (tmr s) = running"
  let ?s2 = "snd (sys_cancel False s)"
  have "sys_cancel False s = (Some True, ?s2)"
    and "state (tmr ?s2) = idle" and "remainingSeconds (tmr ?s2) = 0"
    and "timeout (tmr ?s2) = None"
    and "\<forall>h. timeout (tmr s) = Some h \<longrightarrow> h \<notin> set (scheduled (loop ?s2))"
    and "observed ?s2 = observed s"
    by (simp_all add: sys_cancel_running [OF r] clearTimeout_def)
  then show "\<exists>s2. sys_cancel False s = (Some True, s2)
            \<and> state (tmr s2) = idle \<and> remainingSeconds (tmr s2) = 0
            \<and> timeout (tmr s2) = None
            \<and> (\<forall>h. timeout (tmr s) = Some h \<longrightarrow> h \<notin> set (scheduled (loop s2)))
            \<and> observed s2 = observed s"
    by blast
next
  assume r: "state (tmr s) = running"
  let ?s1 = "snd (sys_cancel cb s)"
  have nr: "state (tmr ?s1) \<noteq> running" and t: "ticks (observed ?s1) = ticks (observed s)"
    by (simp_all add: sys_cancel_running [OF r] ticks_append)
  show "\<forall>as. Start \<notin> set as \<longrightarrow> ticks (observed (acts as ?s1)) = ticks (observed s)"
    using acts_not_running [OF nr] t by simp
qed

text \<open>
  The contract at a countdown from 5 that has reached 4: \<open>cancel\<close> with a callback, and
  then the pending tick's promise, the callback's promise and both timeouts' handles; and
  at a timer that was never started.
\<close>

theorem cancel_contract_witness:
  "sys_cancel True (fresh_sys 5) = (Some False, fresh_sys 5)
   \<and> state (tmr (acts [Start, OnTickReturns, TimeoutFires 0] (fresh_sys 5))) = running
   \<and> ticks (observed (acts [Start, OnTickReturns, TimeoutFires 0] (fresh_sys 5))) = [5, 4]
   \<and> ticks (observed (acts [OnTickReturns, OnCancelReturns, TimeoutFires 0, TimeoutFires 1]
        (snd (sys_cancel True (acts [Start, OnTickReturns, TimeoutFires 0] (fresh_sys 5))))))
       = [5, 4]"
proof -
  let ?s = "acts [Start, OnTickReturns, TimeoutFires 0] (fresh_sys 5)"
  have idle: "state (tmr (fresh_sys 5)) \<noteq> running"
    by (simp add: fresh_sys_def new_CountdownTimer_def)
  have run: "state (tmr ?s) = running" and t: "ticks (observed ?s) = [5, 4]"
    by (simp_all add: fresh_sys_def new_CountdownTimer_def sys_start_def start_begin_def
        runTick_call_def sys_onTick_returns_def runTick_after_def setTimeout_def
        sys_timeout_fires_def timeout_fired_def clearTimeout_def)
  have quiet: "Start \<notin> set [OnTickReturns, OnCancelReturns, TimeoutFires 0, TimeoutFires 1]"
    by simp
  from cancel_contract [of "fresh_sys 5" True] idle
  have "sys_cancel True (fresh_sys 5) = (Some False, fresh_sys 5)"
    by blast
  moreover from cancel_contract [of ?s True] run quiet t
  have "ticks (observed (acts [OnTickReturns, OnCancelReturns, TimeoutFires 0, TimeoutFires 1]
        (snd (sys_cancel True ?s)))) = [5, 4]"
    by metis
  ultimately show ?thesis
    using run t by blast
qed

section \<open>Properties of the power gateway\<close>

lemma commands_log_call: "commands (log_call p m e) = []"
  by (simp add: log_call_def)

lemma runCommand_result:
  "runCommand host p command args label =
     (Inr (), Exec command args #
        log_call p (case execFile host command args of
                      Inr _ \<Rightarrow> label @ '' executed'' | Inl _ \<Rightarrow> label @ '' failed'')
          (case execFile host command args of Inr _ \<Rightarrow> None | Inl e \<Rightarrow> Some e))"
  by (simp add: runCommand_def split: sum.splits)

text \<open>
  C8. The promise of \<open>perform\<close> never rejects. When the gate is not armed, or the
  platform is not Windows, \<open>perform\<close> starts no command and logs that it skips. Otherwise
  it starts exactly the command of the action: \<open>shutdown /s /t 0\<close>, \<open>shutdown /r /t 0\<close>
  or \<open>rundll32.exe powrprof.dll,SetSuspendState 0,1,0\<close>; and when the command fails, the
  failure is logged with its error and goes no further.
\<close>

theorem perform_contract:
  "fst (perform host a p) = Inr ()
   \<and> (\<not> power_armed p \<longrightarrow>
        snd (perform host a p) = log_call p (a @ '' skipped (not armed)'') None)
   \<and> (power_armed p \<and> platform host \<noteq> ''win32'' \<longrightarrow>
        snd (perform host a p) = log_call p (a @ '' skipped (non-Windows)'') None)
   \<and> (\<not> power_armed p \<or> platform host \<noteq> ''win32'' \<longrightarrow> commands (snd (perform host a p)) = [])
   \<and> (power_armed p \<and> platform host = ''win32'' \<longrightarrow>
        (a = ''shutdown'' \<longrightarrow>
           commands (snd (perform host a p)) = [(''shutdown'', [''/s'', ''/t'', ''0''])]
           \<and> (\<forall>e. execFile host ''shutdown'' [''/s'', ''/t'', ''0''] = Inl e \<longrightarrow>
                 snd (perform host a p)
                   = Exec ''shutdown'' [''/s'', ''/t'', ''0'']
                     # log_call p ''trigger shutdown failed'' (Some e)))
      \<and> (a = ''restart'' \<longrightarrow>
           commands (snd (perform host a p)) = [(''shutdown'', [''/r'', ''/t'', ''0''])]
           \<and> (\<forall>e. execFile host ''shutdown'' [''/r'', ''/t'', ''0''] = Inl e \<longrightarrow>
                 snd (perform host a p)
                   = Exec ''shutdown'' [''/r'', ''/t'', ''0'']
                     # log_call p ''trigger restart failed'' (Some e)))
      \<and> (a = ''sleep'' \<longrightarrow>
           commands (snd (perform host a p))
             = [(''rundll32.exe'', [''powrprof.dll,SetSuspendState'', ''0,1,0''])]
           \<and> (\<forall>e. execFile host ''rundll32.exe'' [''powrprof.dll,SetSuspendState'', ''0,1,0'']
                     = Inl e \<longrightarrow>
                 snd (perform host a p)
                   = Exec ''rundll32.exe'' [''powrprof.dll,SetSuspendState'', ''0,1,0'']
                     # log_call p ''trigger sleep failed'' (Some e))))"
  by (simp add: perform_def runCommand_result commands_log_call)

theorem perform_contract_witness:
  "perform (windows_host\<lparr>execFile := (\<lambda>command args. Inl ''denied'')\<rparr>) ''shutdown''
       \<lparr> has_log = True, power_armed = True \<rparr>
     = (Inr (), [Exec ''shutdown'' [''/s'', ''/t'', ''0''],
                 Log ''trigger shutdown failed'' (Some ''denied'')])
   \<and> perform windows_host ''restart'' \<lparr> has_log = True, power_armed = False \<rparr>
     = (Inr (), [Log ''restart skipped (not armed)'' None])"
  using perform_contract [of "windows_host\<lparr>execFile := (\<lambda>command args. Inl ''denied'')\<rparr>"
      "''shutdown''" "\<lparr> has_log = True, power_armed = True \<rparr>"]
    perform_contract [of windows_host "''restart''" "\<lparr> has_log = True, power_armed = False \<rparr>"]
  by (simp add: prod_eq_iff windows_host_def log_call_def)

section \<open>Properties of the renderer\<close>

lemma markup_free_escape_char: "markup_free (escape_char c @ rest) = markup_free rest"
  by (simp add: escape_char_def)

lemma markup_free_escapeXml: "markup_free (escapeXml m)"
  by (induction m) (simp_all add: escapeXml_def markup_free_escape_char)

lemma unescape_escape_char: "unescapeXml (escape_char c @ rest) = c # unescapeXml rest"
  by (simp add: escape_char_def)

lemma unescape_escapeXml: "unescapeXml (escapeXml m) = m"
  by (induction m) (simp_all add: escapeXml_def unescape_escape_char)

lemma escape_char_plain:
  \<open>CHR ''<'' \<notin> set (escape_char c) \<and> CHR ''>'' \<notin> set (escape_char c)
   \<and> CHR 0x22 \<notin> set (escape_char c)\<close>
  by (simp add: escape_char_def)

lemma escapeXml_plain:
  \<open>CHR ''<'' \<notin> set (escapeXml m) \<and> CHR ''>'' \<notin> set (escapeXml m)
   \<and> CHR 0x22 \<notin> set (escapeXml m)\<close>
  by (induction m) (simp_all add: escapeXml_def escape_char_plain)

lemma escapeXml_Nil_iff: "escapeXml m = [] \<longleftrightarrow> m = []"
  by (cases m) (simp_all add: escapeXml_def escape_char_def)

lemma buildMessageGraphic_text:
  "buildMessageGraphic fmt m layout style =
     (if m = [] then []
      else text_open fmt (length (escapeXml m)) layout style @ escapeXml m @ text_close)"
  by (simp add: buildMessageGraphic_def text_open_def text_close_def Let_def escapeXml_Nil_iff)

lemma message_document:
  assumes "m \<noteq> []"
  shows "tile_svg layout (fullGraphic layout (buildMessageGraphic fmt m layout style) style) tile
    = document_open fmt (length (escapeXml m)) layout style tile @ escapeXml m @ document_close"
  using assms
  by (simp add: buildMessageGraphic_text tile_svg_def fullGraphic_def document_open_def
      document_close_def Let_def)

lemma length_tiles_with_coordinates:
  "length (tiles_with_coordinates keys) = length (filter has_coordinates keys)"
  by (induction keys) (auto simp add: has_coordinates_def split: option.splits)

lemma prepareTiles_many:
  "1 < length (prepareTiles keys) \<longleftrightarrow> 1 < length (filter has_coordinates keys)"
  unfolding length_tiles_with_coordinates [symmetric]
  by (auto simp add: prepareTiles_def Let_def)

lemma prepareTiles_many_keys: "1 < length (prepareTiles keys) \<Longrightarrow> 1 < length keys"
proof -
  assume "1 < length (prepareTiles keys)"
  then have "1 < length (filter has_coordinates keys)"
    by (simp only: prepareTiles_many)
  also have "\<dots> \<le> length keys"
    by (rule length_filter_le)
  finally show ?thesis .
qed

lemma buildLayout_single: "buildLayout [tile] = Some (single_layout tile)"
  by (simp add: buildLayout_def single_layout_def the_tileSize_def)

lemma renderCountdown_cases:
  "renderCountdown digits enc remaining totalSeconds keys options =
     (let style = buildStyle remaining totalSeconds options;
          content = (\<lambda>layout. digits remaining layout style
                                (countdown_progress remaining totalSeconds))
      in if opt options opt_multiTileLayout = Some True \<and> 1 < length (prepareTiles keys)
         then composite enc content style (prepareTiles keys)
         else per_tile enc content style (prepareTiles keys))"
  by (simp add: renderCountdown_def composite_def per_tile_def countdown_progress_def Let_def)

lemma renderMessage_cases:
  "renderMessage fmt enc message keys options =
     (let style = buildStyle 1 1 options;
          content = (\<lambda>layout. buildMessageGraphic fmt message layout style)
      in if 1 < length (prepareTiles keys)
         then composite enc content style (prepareTiles keys)
         else per_tile enc content style (prepareTiles keys))"
  by (simp add: renderMessage_def composite_def per_tile_def Let_def)

lemma composite_message:
  assumes "m \<noteq> []"
    and "p \<in> set (composite enc (\<lambda>layout. buildMessageGraphic fmt m layout style) style ts)"
  shows "\<exists>layout tile. buildLayout ts = Some layout \<and> tile \<in> set ts
           \<and> fst p = key_id (action tile)
           \<and> snd p = toDataUri enc
               (document_open fmt (length (escapeXml m)) layout style tile
                @ escapeXml m @ document_close)"
proof (cases "buildLayout ts")
  case None
  with assms(2) show ?thesis by (simp add: composite_def)
next
  case (Some layout)
  with assms(2) obtain tile where "tile \<in> set ts"
    and "p = (key_id (action tile), toDataUri enc
       (tile_svg layout (fullGraphic layout (buildMessageGraphic fmt m layout style) style) tile))"
    by (auto simp add: composite_def renderAcrossTiles_def Let_def)
  with Some show ?thesis
    by (auto simp add: message_document [OF assms(1)])
qed

lemma renderMessage_document:
  assumes "m \<noteq> []" and "p \<in> set (renderMessage fmt enc m keys options)"
  shows "\<exists>layout tile. tile \<in> set (prepareTiles keys)
           \<and> (buildLayout (prepareTiles keys) = Some layout \<or> layout = single_layout tile)
           \<and> fst p = key_id (action tile)
           \<and> snd p = toDataUri enc
               (document_open fmt (length (escapeXml m)) layout (buildStyle 1 1 options) tile
                @ escapeXml m @ document_close)"
proof -
  let ?style = "buildStyle 1 1 options"
  let ?content = "\<lambda>layout. buildMessageGraphic fmt m layout ?style"
  show ?thesis
  proof (cases "1 < length (prepareTiles keys)")
    case True
    with assms(2) have "p \<in> set (composite enc ?content ?style (prepareTiles keys))"
      by (simp add: renderMessage_cases Let_def)
    from composite_message [OF assms(1) this] show ?thesis by blast
  next
    case False
    with assms(2) obtain t where t: "t \<in> set (prepareTiles keys)"
      and "p \<in> set (composite enc ?content ?style [t])"
      by (auto simp add: renderMessage_cases Let_def per_tile_def)
    from composite_message [OF assms(1) this(2)] t show ?thesis
      by (auto simp add: buildLayout_single)
  qed
qed

text \<open>
  C10. The text of a message is escaped: in what \<open>escapeXml\<close> returns, none of \<open><\<close>,
  \<open>>\<close> and \<open>"\<close> occurs and every \<open>&\<close> opens one of the four entities, and reading the
  entities back gives the message. The graphic of a message is the opening of its text
  element, the escaped text and the end of the element, and the opening takes nothing of
  the message but the length of the escaped text. So every image that \<open>renderMessage\<close>
  delivers is the document of a tile up to the text, then the escaped text, then the end
  of the document: no character of the message stands in it unescaped.
\<close>

theorem message_text_escaped:
  \<open>markup_free (escapeXml m)
   \<and> CHR ''<'' \<notin> set (escapeXml m) \<and> CHR ''>'' \<notin> set (escapeXml m)
   \<and> CHR 0x22 \<notin> set (escapeXml m)
   \<and> unescapeXml (escapeXml m) = m
   \<and> buildMessageGraphic fmt m layout style
       = (if m = [] then []
          else text_open fmt (length (escapeXml m)) layout style @ escapeXml m @ text_close)
   \<and> (m \<noteq> [] \<longrightarrow>
        (\<forall>p \<in> set (renderMessage fmt enc m keys options).
           \<exists>layout' tile. tile \<in> set (prepareTiles keys)
             \<and> (buildLayout (prepareTiles keys) = Some layout' \<or> layout' = single_layout tile)
             \<and> fst p = key_id (action tile)
             \<and> snd p = toDataUri enc
                 (document_open fmt (length (escapeXml m)) layout' (buildStyle 1 1 options) tile
                  @ escapeXml m @ document_close)))\<close>
  using markup_free_escapeXml [of m] escapeXml_plain [of m] unescape_escapeXml [of m]
    buildMessageGraphic_text [of fmt m layout style]
    renderMessage_document [of m _ fmt enc keys options]
  by blast

theorem message_text_escaped_witness:
  \<open>escapeXml ''<b>"&'' = ''&lt;b&gt;&quot;&amp;''
   \<and> markup_free ''&lt;b&gt;&quot;&amp;''
   \<and> unescapeXml ''&lt;b&gt;&quot;&amp;'' = ''<b>"&''
   \<and> renderMessage (\<lambda>x. ''1'') (\<lambda>s. s) ''<b>"&'' [key1] None
       = [(''key1'',
           toDataUri (\<lambda>s. s)
             (document_open (\<lambda>x. ''1'') 20 (single_layout \<lparr> action = key1, col = 0, row = 0 \<rparr>)
                (buildStyle 1 1 None) \<lparr> action = key1, col = 0, row = 0 \<rparr>
              @ ''&lt;b&gt;&quot;&amp;'' @ document_close))]\<close>
proof -
  let ?m = "[CHR ''<'', CHR ''b'', CHR ''>'', CHR 0x22, CHR ''&'']"
  let ?t = "\<lparr> action = key1, col = 0, row = 0 \<rparr>"
  have e: \<open>escapeXml ?m = ''&lt;b&gt;&quot;&amp;''\<close>
    by (simp add: escapeXml_def escape_char_def)
  have t: "prepareTiles [key1] = [?t]"
    by (simp add: prepareTiles_def key1_def)
  then have "\<exists>uri. renderMessage (\<lambda>x. ''1'') (\<lambda>s. s) ?m [key1] None = [(''key1'', uri)]"
    by (simp add: renderMessage_cases per_tile_def composite_def buildLayout_single
        renderAcrossTiles_def key1_def Let_def)
  then obtain uri where
    r: "renderMessage (\<lambda>x. ''1'') (\<lambda>s. s) ?m [key1] None = [(''key1'', uri)]"
    by blast
  from message_text_escaped [of ?m "\<lambda>x. ''1''" _ _ "\<lambda>s. s" "[key1]" None]
  have safe: \<open>markup_free (escapeXml ?m)\<close> \<open>unescapeXml (escapeXml ?m) = ?m\<close>
    and "\<forall>p \<in> set (renderMessage (\<lambda>x. ''1'') (\<lambda>s. s) ?m [key1] None).
           \<exists>layout' tile. tile \<in> set (prepareTiles [key1])
             \<and> (buildLayout (prepareTiles [key1]) = Some layout' \<or> layout' = single_layout tile)
             \<and> fst p = key_id (action tile)
             \<and> snd p = toDataUri (\<lambda>s. s)
                 (document_open (\<lambda>x. ''1'') (length (escapeXml ?m)) layout' (buildStyle 1 1 None)
                    tile
                  @ escapeXml ?m @ document_close)"
    by simp_all
  then have u: "uri = toDataUri (\<lambda>s. s)
      (document_open (\<lambda>x. ''1'') (length (escapeXml ?m)) (single_layout ?t) (buildStyle 1 1 None) ?t
       @ escapeXml ?m @ document_close)"
    unfolding r t by (auto simp add: buildLayout_single)
  have len: "length (escapeXml ?m) = 20"
    unfolding e by simp
  from safe r [unfolded u len] show ?thesis
    unfolding e by simp
qed



lemma tile_svg_cropped:
  "tile_svg layout graphic tile =
     cropped graphic ((col tile - minCol layout) * tileSize layout)
       ((row tile - minRow layout) * tileSize layout) (tileSize layout)"
  by (simp add: tile_svg_def cropped_def Let_def)

lemma minimum_le: "minimum x ys \<le> x \<and> (\<forall>y \<in> set ys. minimum x ys \<le> y)"
proof (induction ys arbitrary: x)
  case Nil
  then show ?case by simp
next
  case (Cons y ys)
  from Cons.IH [of "min x y"] show ?case by auto
qed

lemma maximum_ge: "x \<le> maximum x ys \<and> (\<forall>y \<in> set ys. y \<le> maximum x ys)"
proof (induction ys arbitrary: x)
  case Nil
  then show ?case by simp
next
  case (Cons y ys)
  from Cons.IH [of "max x y"] show ?case by auto
qed

lemma buildLayout_bounds:
  assumes "buildLayout tiles = Some layout" and "tile \<in> set tiles"
  shows "tileSize layout = 200"
    and "minCol layout \<le> col tile" and "col tile - minCol layout < columns layout"
    and "minRow layout \<le> row tile" and "row tile - minRow layout < rows layout"
    and "widthPx layout = columns layout * 200" and "heightPx layout = rows layout * 200"
proof -
  from assms obtain t ts where ts: "tiles = t # ts"
    by (cases tiles) auto
  from assms(2) ts have c: "col tile = col t \<or> col tile \<in> set (map col ts)"
    and r: "row tile = row t \<or> row tile \<in> set (map row ts)"
    by auto
  from assms(1) ts have l: "layout =
      \<lparr> tileSize = 200, minCol = minimum (col t) (map col ts),
        minRow = minimum (row t) (map row ts),
        columns = maximum (col t) (map col ts) - minimum (col t) (map col ts) + 1,
        rows = maximum (row t) (map row ts) - minimum (row t) (map row ts) + 1,
        widthPx = (maximum (col t) (map col ts) - minimum (col t) (map col ts) + 1) * 200,
        heightPx = (maximum (row t) (map row ts) - minimum (row t) (map row ts) + 1) * 200 \<rparr>"
    by (simp add: buildLayout_def the_tileSize_def Let_def)
  from c minimum_le [of "col t" "map col ts"] maximum_ge [of "col t" "map col ts"]
  have "minimum (col t) (map col ts) \<le> col tile" "col tile \<le> maximum (col t) (map col ts)"
    by auto
  moreover
  from r minimum_le [of "row t" "map row ts"] maximum_ge [of "row t" "map row ts"]
  have "minimum (row t) (map row ts) \<le> row tile" "row tile \<le> maximum (row t) (map row ts)"
    by auto
  ultimately show "tileSize layout = 200"
    and "minCol layout \<le> col tile" and "col tile - minCol layout < columns layout"
    and "minRow layout \<le> row tile" and "row tile - minRow layout < rows layout"
    and "widthPx layout = columns layout * 200" and "heightPx layout = rows layout * 200"
    by (simp_all add: l)
qed

lemma window_on_canvas:
  assumes "buildLayout tiles = Some layout" and "tile \<in> set tiles"
    and "in_window ((col tile - minCol layout) * tileSize layout)
           ((row tile - minRow layout) * tileSize layout) (tileSize layout) p"
  shows "on_canvas layout p"
proof -
  note b = buildLayout_bounds [OF assms(1,2)]
  let ?i = "col tile - minCol layout" and ?j = "row tile - minRow layout"
  from b have i: "0 \<le> ?i" "?i + 1 \<le> columns layout" and j: "0 \<le> ?j" "?j + 1 \<le> rows layout"
    by simp_all
  from i(2) have "(?i + 1) * 200 \<le> columns layout * 200"
    by (rule mult_right_mono) simp
  moreover from j(2) have "(?j + 1) * 200 \<le> rows layout * 200"
    by (rule mult_right_mono) simp
  moreover from i(1) j(1) have "0 \<le> ?i * 200" "0 \<le> ?j * 200"
    by simp_all
  ultimately show ?thesis
    using assms(3) b(1,6,7)
    by (simp add: in_window_def on_canvas_def algebra_simps)
qed

lemma composite_cropped:
  assumes "buildLayout tiles = Some layout"
  shows "composite enc content style tiles =
     map (\<lambda>tile. (key_id (action tile),
                   toDataUri enc
                     (cropped (fullGraphic layout (content layout) style)
                        ((col tile - minCol layout) * 200) ((row tile - minRow layout) * 200)
                        200)))
       tiles"
proof -
  have "tile \<in> set tiles \<Longrightarrow> tileSize layout = 200" for tile
    using buildLayout_bounds(1) [OF assms] .
  then have "tiles \<noteq> [] \<Longrightarrow> tileSize layout = 200"
    by (cases tiles) auto
  then show ?thesis
    using assms
    by (cases "tiles = []")
      (simp_all add: composite_def renderAcrossTiles_def tile_svg_cropped Let_def)
qed

lemma two_by_one_layout:
  assumes "coordinates a = Some (c, r)" and "coordinates b = Some (c + 1, r)"
  shows "prepareTiles [a, b] = [\<lparr> action = a, col = c, row = r \<rparr>, \<lparr> action = b, col = c + 1, row = r \<rparr>]"
    and "buildLayout (prepareTiles [a, b]) = Some (two_by_one c r)"
  using assms
  by (simp_all add: prepareTiles_def buildLayout_def two_by_one_def the_tileSize_def Let_def)

lemma two_by_one_windows:
  "on_canvas (two_by_one c r) p \<longleftrightarrow> in_window 0 0 200 p \<or> in_window 200 0 200 p"
  "\<not> (in_window 0 0 200 p \<and> in_window 200 0 200 p)"
  by (auto simp add: on_canvas_def in_window_def two_by_one_def)

text \<open>
  C2, as the code has it. In a render over more than one tile, with \<open>layout\<close> the layout
  of the tiles, the renderer builds one canvas. The canvas of a message is made from the
  message, the layout and the style; the canvas of a countdown is made from the value,
  the layout, the style and the progress \<open>1 - remaining / total\<close>, which the source hands
  to the drawing function as a fourth argument (in the source the drawing function
  \<open>digits\<close> is \<open>buildCountdownGraphic fmt\<close>). The image of every tile is this canvas
  cropped to the window of 200 by 200 pixels at the offset
  \<open>((col - minCol) * 200, (row - minRow) * 200)\<close>, which lies on the canvas. For two keys
  side by side and 9 remaining seconds, the layout is two columns by one row, the two
  images are the canvas of that layout, of the value 9 and of the same total, cropped at
  \<open>(0, 0)\<close> and at \<open>(200, 0)\<close>, and the two windows together are the canvas, each pixel
  of it in exactly one of them.
\<close>

theorem sliced_from_one_canvas:
  assumes "1 < length (prepareTiles keys)"
    and "buildLayout (prepareTiles keys) = Some layout"
  shows "renderCountdown digits enc remaining totalSeconds keys
             (Some (countdown_options settings toggle remaining keys))
           = (let style = buildStyle remaining totalSeconds
                            (Some (countdown_options settings toggle remaining keys));
                  canvas = fullGraphic layout
                             (digits remaining layout style
                                (countdown_progress remaining totalSeconds)) style
              in map (\<lambda>tile. (key_id (action tile),
                               toDataUri enc
                                 (cropped canvas ((col tile - minCol layout) * 200)
                                    ((row tile - minRow layout) * 200) 200)))
                   (prepareTiles keys))
    \<and> renderMessage fmt enc message keys (Some (message_options settings b keys))
           = (let style = buildStyle 1 1 (Some (message_options settings b keys));
                  canvas = fullGraphic layout (buildMessageGraphic fmt message layout style) style
              in map (\<lambda>tile. (key_id (action tile),
                               toDataUri enc
                                 (cropped canvas ((col tile - minCol layout) * 200)
                                    ((row tile - minRow layout) * 200) 200)))
                   (prepareTiles keys))
    \<and> (\<forall>tile \<in> set (prepareTiles keys). \<forall>p.
          in_window ((col tile - minCol layout) * 200) ((row tile - minRow layout) * 200) 200 p
            \<longrightarrow> on_canvas layout p)
    \<and> (\<forall>k1 k2 c r. keys = [k1, k2] \<and> coordinates k1 = Some (c, r)
            \<and> coordinates k2 = Some (c + 1, r) \<and> remaining = 9 \<longrightarrow>
          layout = two_by_one c r
          \<and> renderCountdown digits enc remaining totalSeconds keys
                (Some (countdown_options settings toggle remaining keys))
              = (let style = buildStyle 9 totalSeconds
                               (Some (countdown_options settings toggle 9 keys));
                     canvas = fullGraphic (two_by_one c r)
                                (digits 9 (two_by_one c r) style
                                   (countdown_progress 9 totalSeconds)) style
                 in [(key_id k1, toDataUri enc (cropped canvas 0 0 200)),
                     (key_id k2, toDataUri enc (cropped canvas 200 0 200))])
          \<and> (\<forall>p. on_canvas (two_by_one c r) p
                    \<longleftrightarrow> in_window 0 0 200 p \<or> in_window 200 0 200 p)
          \<and> (\<forall>p. \<not> (in_window 0 0 200 p \<and> in_window 200 0 200 p)))"
proof -
  have many: "1 < length keys"
    using assms(1) by (rule prepareTiles_many_keys)
  have 1: "renderCountdown digits enc remaining totalSeconds keys
             (Some (countdown_options settings toggle remaining keys))
           = (let style = buildStyle remaining totalSeconds
                            (Some (countdown_options settings toggle remaining keys));
                  canvas = fullGraphic layout
                             (digits remaining layout style
                                (countdown_progress remaining totalSeconds)) style
              in map (\<lambda>tile. (key_id (action tile),
                               toDataUri enc
                                 (cropped canvas ((col tile - minCol layout) * 200)
                                    ((row tile - minRow layout) * 200) 200)))
                   (prepareTiles keys))" for remaining
    using assms(1) many
    by (simp add: renderCountdown_cases opt_def countdown_options_def Let_def
        composite_cropped [OF assms(2)])
  have 2: "renderMessage fmt enc message keys (Some (message_options settings b keys))
           = (let style = buildStyle 1 1 (Some (message_options settings b keys));
                  canvas = fullGraphic layout (buildMessageGraphic fmt message layout style) style
              in map (\<lambda>tile. (key_id (action tile),
                               toDataUri enc
                                 (cropped canvas ((col tile - minCol layout) * 200)
                                    ((row tile - minRow layout) * 200) 200)))
                   (prepareTiles keys))"
    using assms(1)
    by (simp add: renderMessage_cases Let_def composite_cropped [OF assms(2)])
  have 3: "\<forall>tile \<in> set (prepareTiles keys). \<forall>p.
          in_window ((col tile - minCol layout) * 200) ((row tile - minRow layout) * 200) 200 p
            \<longrightarrow> on_canvas layout p"
    using window_on_canvas [OF assms(2)] buildLayout_bounds(1) [OF assms(2)]
    by auto
  have 4: "layout = two_by_one c r
          \<and> renderCountdown digits enc remaining totalSeconds keys
                (Some (countdown_options settings toggle remaining keys))
              = (let style = buildStyle 9 totalSeconds
                               (Some (countdown_options settings toggle 9 keys));
                     canvas = fullGraphic (two_by_one c r)
                                (digits 9 (two_by_one c r) style
                                   (countdown_progress 9 totalSeconds)) style
                 in [(key_id k1, toDataUri enc (cropped canvas 0 0 200)),
                     (key_id k2, toDataUri enc (cropped canvas 200 0 200))])"
    if k: "keys = [k1, k2]" "coordinates k1 = Some (c, r)" "coordinates k2 = Some (c + 1, r)"
      and nine: "remaining = 9" for k1 k2 c r
  proof -
    from two_by_one_layout [OF k(2,3)] assms(2) k(1)
    have l: "layout = two_by_one c r"
      and t: "prepareTiles keys = [\<lparr> action = k1, col = c, row = r \<rparr>, \<lparr> action = k2, col = c + 1, row = r \<rparr>]"
      by simp_all
    from 1 [of 9] show ?thesis
      unfolding nine l t by (simp add: Let_def two_by_one_def)
  qed
  from 1 2 3 4 two_by_one_windows show ?thesis
    by blast
qed

theorem sliced_from_one_canvas_witness:
  "1 < length (prepareTiles [key1, key2])
   \<and> buildLayout (prepareTiles [key1, key2]) = Some (two_by_one 0 0)
   \<and> renderCountdown (\<lambda>r l s p. ''9'') (\<lambda>s. s) 9 10 [key1, key2]
         (Some (countdown_options DEFAULTS False 9 [key1, key2]))
       = (let style = buildStyle 9 10 (Some (countdown_options DEFAULTS False 9 [key1, key2]));
              canvas = fullGraphic (two_by_one 0 0) ''9'' style
          in [(''key1'', toDataUri (\<lambda>s. s) (cropped canvas 0 0 200)),
              (''key2'', toDataUri (\<lambda>s. s) (cropped canvas 200 0 200))])"
proof -
  have t: "prepareTiles [key1, key2]
      = [\<lparr> action = key1, col = 0, row = 0 \<rparr>, \<lparr> action = key2, col = 1, row = 0 \<rparr>]"
    and l: "buildLayout (prepareTiles [key1, key2]) = Some (two_by_one 0 0)"
    using two_by_one_layout [of key1 0 0 key2] by (simp_all add: key1_def key2_def)
  have m: "1 < length (prepareTiles [key1, key2])"
    by (simp add: t)
  from sliced_from_one_canvas [OF m l, where digits = "\<lambda>r l s p. ''9''" and enc = "\<lambda>s. s"
      and remaining = 9 and totalSeconds = 10 and settings = DEFAULTS and toggle = False]
  have "renderCountdown (\<lambda>r l s p. ''9'') (\<lambda>s. s) 9 10 [key1, key2]
         (Some (countdown_options DEFAULTS False 9 [key1, key2]))
       = (let style = buildStyle 9 10 (Some (countdown_options DEFAULTS False 9 [key1, key2]));
              canvas = fullGraphic (two_by_one 0 0) ''9'' style
          in map (\<lambda>tile. (key_id (action tile),
                           toDataUri (\<lambda>s. s)
                             (cropped canvas ((col tile - minCol (two_by_one 0 0)) * 200)
                                ((row tile - minRow (two_by_one 0 0)) * 200) 200)))
               (prepareTiles [key1, key2]))"
    by blast
  moreover have "key_id key1 = ''key1''" "key_id key2 = ''key2''"
    by (simp_all add: key1_def key2_def)
  ultimately show ?thesis
    using m l by (simp add: t Let_def two_by_one_def)
qed

lemma cropped_same: "cropped g x y n = cropped g' x y n \<Longrightarrow> g = g'"
  by (simp add: cropped_def)

lemma fullGraphic_same:
  "fullGraphic layout content style = fullGraphic layout content' style \<Longrightarrow> content = content'"
  by (simp add: fullGraphic_def)

lemma progressSweep_same:
  assumes "progressSweep fmt layout style p = progressSweep fmt layout style q"
  shows "fmt (dash_length layout p) = fmt (dash_length layout q)"
  using assms
  unfolding progressSweep_def dash_length_def Let_def nl_def
  by (simp only: same_append_eq append_same_eq list.inject append_Cons append_Nil simp_thms)

lemma buildCountdownGraphic_same:
  assumes "buildCountdownGraphic fmt r layout style p = buildCountdownGraphic fmt r layout style q"
  shows "fmt (dash_length layout p) = fmt (dash_length layout q)"
proof -
  from assms have "progressSweep fmt layout style p = progressSweep fmt layout style q"
    unfolding buildCountdownGraphic_def Let_def by (simp only: append_same_eq)
  then show ?thesis by (rule progressSweep_same)
qed

lemma dash_length_two_by_one: "dash_length (two_by_one c r) p = 152 * pi * max 0 (min 1 p)"
  by (simp add: dash_length_def two_by_one_def)

lemma dash_lengths_differ:
  "dash_length (two_by_one 0 0) (1 / 10) \<noteq> dash_length (two_by_one 0 0) (1 / 4)"
  by (simp add: dash_length_two_by_one)

lemma same_style:
  "buildStyle 9 10 (Some (countdown_options DEFAULTS False 9 [key1, key2]))
     = buildStyle 9 12 (Some (countdown_options DEFAULTS False 9 [key1, key2]))"
  by (simp add: buildStyle_def colorForRatio_def opt_def orElse_def countdown_options_def
      no_options_def Let_def)

lemma progress_values: "countdown_progress 9 10 = 1 / 10" "countdown_progress 9 12 = 1 / 4"
  by (simp_all add: countdown_progress_def)

lemma two_keys_tiles:
  "prepareTiles [key1, key2]
     = [\<lparr> action = key1, col = 0, row = 0 \<rparr>, \<lparr> action = key2, col = 1, row = 0 \<rparr>]"
  and two_keys_layout: "buildLayout (prepareTiles [key1, key2]) = Some (two_by_one 0 0)"
  using two_by_one_layout [of key1 0 0 key2] by (simp_all add: key1_def key2_def)

lemma renderCountdown_two_keys:
  "renderCountdown digits (\<lambda>s. s) 9 n [key1, key2]
       (Some (countdown_options DEFAULTS False 9 [key1, key2]))
     = map (\<lambda>tile. (key_id (action tile),
                     toDataUri (\<lambda>s. s)
                       (cropped (fullGraphic (two_by_one 0 0)
                          (digits 9 (two_by_one 0 0)
                             (buildStyle 9 n (Some (countdown_options DEFAULTS False 9 [key1, key2])))
                             (countdown_progress 9 n))
                          (buildStyle 9 n (Some (countdown_options DEFAULTS False 9 [key1, key2]))))
                        ((col tile - minCol (two_by_one 0 0)) * 200)
                        ((row tile - minRow (two_by_one 0 0)) * 200) 200)))
         (prepareTiles [key1, key2])"
proof -
  have m: "1 < length (prepareTiles [key1, key2])"
    by (simp add: two_keys_tiles)
  have o: "opt (Some (countdown_options DEFAULTS False 9 [key1, key2])) opt_multiTileLayout
      = Some True"
    by (simp add: opt_def countdown_options_def)
  show ?thesis
    unfolding renderCountdown_cases Let_def o
    using m by (simp only: composite_cropped [OF two_keys_layout] simp_thms if_True)
qed

text \<open>
  Two countdown renders of the same value over the same two keys, with the same style,
  one of a total of 10 seconds and one of 12: if the images are the same, then the
  function that writes numbers writes the two dash lengths of the progress ring,
  \<open>152 * pi / 10\<close> and \<open>152 * pi / 4\<close>, as the same text.
\<close>

lemma renderCountdown_same_images:
  assumes "renderCountdown (buildCountdownGraphic fmt) (\<lambda>s. s) 9 10 [key1, key2]
               (Some (countdown_options DEFAULTS False 9 [key1, key2]))
           = renderCountdown (buildCountdownGraphic fmt) (\<lambda>s. s) 9 12 [key1, key2]
               (Some (countdown_options DEFAULTS False 9 [key1, key2]))"
  shows "fmt (dash_length (two_by_one 0 0) (1 / 10)) = fmt (dash_length (two_by_one 0 0) (1 / 4))"
proof -
  let ?opts = "countdown_options DEFAULTS False 9 [key1, key2]"
  let ?L = "two_by_one 0 0"
  define g10 where "g10 = fullGraphic ?L
               (buildCountdownGraphic fmt 9 ?L (buildStyle 9 12 (Some ?opts)) (1 / 10))
               (buildStyle 9 12 (Some ?opts))"
  define g12 where "g12 = fullGraphic ?L
               (buildCountdownGraphic fmt 9 ?L (buildStyle 9 12 (Some ?opts)) (1 / 4))
               (buildStyle 9 12 (Some ?opts))"
  from assms
  have "map (\<lambda>tile. (key_id (action tile), toDataUri (\<lambda>s. s)
               (cropped g10 ((col tile - minCol ?L) * 200) ((row tile - minRow ?L) * 200) 200)))
               (prepareTiles [key1, key2])
           = map (\<lambda>tile. (key_id (action tile), toDataUri (\<lambda>s. s)
               (cropped g12 ((col tile - minCol ?L) * 200) ((row tile - minRow ?L) * 200) 200)))
               (prepareTiles [key1, key2])"
    unfolding renderCountdown_two_keys same_style progress_values g10_def g12_def .
  then have "toDataUri (\<lambda>s. s) (cropped g10 ((0 - minCol ?L) * 200) ((0 - minRow ?L) * 200) 200)
      = toDataUri (\<lambda>s. s) (cropped g12 ((0 - minCol ?L) * 200) ((0 - minRow ?L) * 200) 200)"
    unfolding two_keys_tiles by simp
  then have "cropped g10 ((0 - minCol ?L) * 200) ((0 - minRow ?L) * 200) 200
      = cropped g12 ((0 - minCol ?L) * 200) ((0 - minRow ?L) * 200) 200"
    by (simp only: toDataUri_def same_append_eq)
  then have "g10 = g12"
    by (rule cropped_same)
  then have "buildCountdownGraphic fmt 9 ?L (buildStyle 9 12 (Some ?opts)) (1 / 10)
      = buildCountdownGraphic fmt 9 ?L (buildStyle 9 12 (Some ?opts)) (1 / 4)"
    unfolding g10_def g12_def by (rule fullGraphic_same)
  then show ?thesis
    by (rule buildCountdownGraphic_same)
qed

text \<open>
  C2, as the specification has it, fails: the canvas of a countdown is not made from the
  value, the layout and the style alone. For the two keys side by side at 9 remaining
  seconds, a total of 10 seconds and a total of 12 seconds give the same value, the same
  layout and the same style, but the progress is \<open>1 / 10\<close> for the one and \<open>1 / 4\<close> for
  the other, the dash of the progress ring has another length, and the delivered images
  are not the same for every function that writes numbers: they differ for each one
  that tells the two lengths apart.
\<close>

theorem sliced_from_one_canvas_counterexample:
  "buildStyle 9 10 (Some (countdown_options DEFAULTS False 9 [key1, key2]))
     = buildStyle 9 12 (Some (countdown_options DEFAULTS False 9 [key1, key2]))
   \<and> buildLayout (prepareTiles [key1, key2]) = Some (two_by_one 0 0)
   \<and> countdown_progress 9 10 = 1 / 10 \<and> countdown_progress 9 12 = 1 / 4
   \<and> dash_length (two_by_one 0 0) (1 / 10) \<noteq> dash_length (two_by_one 0 0) (1 / 4)
   \<and> \<not> (\<forall>fmt. renderCountdown (buildCountdownGraphic fmt) (\<lambda>s. s) 9 10 [key1, key2]
                   (Some (countdown_options DEFAULTS False 9 [key1, key2]))
               = renderCountdown (buildCountdownGraphic fmt) (\<lambda>s. s) 9 12 [key1, key2]
                   (Some (countdown_options DEFAULTS False 9 [key1, key2])))"
proof -
  let ?opts = "countdown_options DEFAULTS False 9 [key1, key2]"
  let ?L = "two_by_one 0 0"
  have "\<not> (\<forall>fmt. renderCountdown (buildCountdownGraphic fmt) (\<lambda>s. s) 9 10 [key1, key2]
                   (Some ?opts)
               = renderCountdown (buildCountdownGraphic fmt) (\<lambda>s. s) 9 12 [key1, key2]
                   (Some ?opts))"
  proof
    assume all: "\<forall>fmt. renderCountdown (buildCountdownGraphic fmt) (\<lambda>s. s) 9 10 [key1, key2]
                   (Some ?opts)
               = renderCountdown (buildCountdownGraphic fmt) (\<lambda>s. s) 9 12 [key1, key2]
                   (Some ?opts)"
    define f :: "real \<Rightarrow> string"
      where "f x = (if x = dash_length ?L (1 / 10) then ''a'' else ''b'')" for x
    from all have "renderCountdown (buildCountdownGraphic f) (\<lambda>s. s) 9 10 [key1, key2]
                   (Some ?opts)
               = renderCountdown (buildCountdownGraphic f) (\<lambda>s. s) 9 12 [key1, key2]
                   (Some ?opts)"
      by blast
    then have "f (dash_length ?L (1 / 10)) = f (dash_length ?L (1 / 4))"
      by (rule renderCountdown_same_images)
    with dash_lengths_differ show False
      by (simp add: f_def)
  qed
  with same_style two_keys_layout progress_values dash_lengths_differ show ?thesis
    by blast
qed

section \<open>Properties of the coordinator\<close>

lemma abortScheduled_once: "has_log p \<Longrightarrow> abort_calls (snd (abortScheduled host p)) = 1"
  by (simp add: abortScheduled_def runCommand_def log_call_def split: sum.splits)

lemma setMaster_keeps:
  "ctl_state (setMaster i s c) = ctl_state c" "timers (setMaster i s c) = timers c"
  "timer (setMaster i s c) = timer c" "queue (setMaster i s c) = queue c"
  "gateway (setMaster i s c) = gateway c" "activeKeys (setMaster i s c) = activeKeys c"
  "sharedSettings (setMaster i s c) = s"
  by (simp_all add: setMaster_def emit_def Let_def split: option.splits)

lemma cancel_begin_running:
  "state t = running \<Longrightarrow> cancel_begin t lp = (True, cancelled_timer t, cleared t lp)"
  by (cases t) (simp add: cancel_begin_def cancelled_timer_def cleared_def split: option.splits)

lemma timer_cancel_call_running:
  assumes "state (timers c (timer c)) = running"
  shows "timer_cancel_call host c =
     (True, c\<lparr>timers := (timers c)(timer c := cancelled_timer (timers c (timer c))),
              queue := cleared (timers c (timer c)) (queue c),
              trace := trace c @ snd (abortScheduled host (gateway c))\<rparr>)"
  by (simp add: timer_cancel_call_def cancel_begin_running [OF assms] emit_def)

lemma timer_cancel_call_not_running:
  "state (timers c (timer c)) \<noteq> running \<Longrightarrow> timer_cancel_call host c = (False, c)"
  by (simp add: timer_cancel_call_def cancel_begin_def)

lemma unregister_last_counting:
  assumes "ev_action ev = Some k" and "map_delete (key_id k) (activeKeys c) = []"
    and "ctl_state c = st_running" and "state (timers c (timer c)) = running"
  shows "unregister host ev role c =
     c\<lparr>activeKeys := [],
       timers := (timers c)(timer c := cancelled_timer (timers c (timer c))),
       queue := cleared (timers c (timer c)) (queue c),
       trace := trace c @ snd (abortScheduled host (gateway c)),
       ctl_state := st_idle,
       masterContext := (if role = master \<and> masterContext c = Some (key_id k) then None
                         else masterContext c)\<rparr>"
proof -
  let ?c1 = "c\<lparr>activeKeys := []\<rparr>"
  have "state (timers ?c1 (timer ?c1)) = running"
    using assms(4) by simp
  note call = timer_cancel_call_running [OF this, of host]
  show ?thesis
    using assms(1,2,3)
    by (simp add: unregister_def untrackKey_def Let_def call totalKeyCount_def
        renderMessageAcrossDevices_def clearTitlesAcrossDevices_def getKeysPerDevice_def emit_def)
qed

text \<open>
  When the coordinator is in its running state but the timer is not (the timer has
  completed and \<open>onComplete\<close> has not finished, or a cancel is under way), \<open>cancel\<close>
  answers \<open>false\<close> to the \<open>unregister\<close> of the last key: the coordinator goes to idle
  and nothing else happens.
\<close>

lemma unregister_last_not_counting:
  assumes "ev_action ev = Some k" and "map_delete (key_id k) (activeKeys c) = []"
    and "ctl_state c = st_running" and "state (timers c (timer c)) \<noteq> running"
  shows "unregister host ev role c =
     c\<lparr>activeKeys := [], ctl_state := st_idle,
       masterContext := (if role = master \<and> masterContext c = Some (key_id k) then None
                         else masterContext c)\<rparr>"
proof -
  let ?c1 = "c\<lparr>activeKeys := []\<rparr>"
  have "state (timers ?c1 (timer ?c1)) \<noteq> running"
    using assms(4) by simp
  note call = timer_cancel_call_not_running [OF this, of host]
  show ?thesis
    using assms(1,2,3)
    by (simp add: unregister_def untrackKey_def Let_def call totalKeyCount_def
        renderMessageAcrossDevices_def clearTitlesAcrossDevices_def getKeysPerDevice_def emit_def)
qed

lemma unregister_otherwise:
  assumes "ev_action ev = Some k"
    and "ctl_state c \<noteq> st_running \<or> map_delete (key_id k) (activeKeys c) \<noteq> []"
  shows "unregister host ev role c =
     c\<lparr>activeKeys := map_delete (key_id k) (activeKeys c),
       masterContext := (if role = master \<and> masterContext c = Some (key_id k) then None
                         else masterContext c)\<rparr>"
  using assms
  by (auto simp add: unregister_def Let_def totalKeyCount_def untrackKey_def)

text \<open>The run of the installation, evaluated.\<close>

lemmas scenario_defs = key1_def windows_host_def armed_five_def second_def counting_def
  final_frame_def cancel_phases_def
  handleKeyDown_def register_def new_ShutdownController_def no_settings_def
  normalizeSettings_def field_def normalizeColor_def clampSeconds_def round_half_up_def
  normalizePowerAction_def DEFAULTS_def trackKey_def setMaster_def emit_def renderByState_def
  idle_message_def
  renderMessageAcrossDevices_def renderCountdownAcrossDevices_def getKeysPerDevice_def
  message_options_def countdown_options_def no_options_def setArmed_ctl_def setArmed_def
  log_call_def new_SystemPower_def startCountdown_def totalKeyCount_def start_begin_def
  new_CountdownTimer_def onTick_render_def onTick_titles_def clearTitlesAcrossDevices_def
  tick_returns_def runTick_after_def setTimeout_def timeout_fires_def timeout_fired_def
  clearTimeout_def onComplete_render_def orElse_def toLowerCase_def lower_char_def
  is_hex_digit_def timer_cancel_call_def cancel_begin_def unregister_def untrackKey_def
  map_delete_def cancelCountdown_cancelled_def cancelCountdown_titles_def
  cancelCountdown_rest_def cancelCountdown_last_titles_def timer_cancel_returns_def
  cancel_end_def abortScheduled_def runCommand_def onComplete_titles_def
  onComplete_perform_def perform_def

lemma counting_facts:
  "ctl_state counting = st_running" "timer counting = Suc 0"
  "timers counting (Suc 0) = \<lparr>durationSeconds = 5, state = running, remainingSeconds = 5, timeout = None\<rparr>"
  "map fst (activeKeys counting) = [''key1'']"
  "gateway counting = \<lparr>has_log = True, power_armed = True\<rparr>"
  "armed (sharedSettings counting)"
  by (simp_all add: scenario_defs Let_def)

lemma final_frame_facts:
  "ctl_state final_frame = st_running" "timer final_frame = Suc 0"
  "timers final_frame (Suc 0) = \<lparr>durationSeconds = 5, state = idle, remainingSeconds = 0, timeout = None\<rparr>"
  "map fst (activeKeys final_frame) = [''key1'']"
  "gateway final_frame = \<lparr>has_log = True, power_armed = True\<rparr>"
  "powerAction (sharedSettings final_frame) = ''shutdown''"
  by (simp_all add: scenario_defs Let_def)

lemma only_key1:
  "map fst (activeKeys c) = [''key1''] \<Longrightarrow> map_delete (key_id key1) (activeKeys c) = []"
  by (cases "activeKeys c") (auto simp add: map_delete_def key1_def)

text \<open>
  C3, as the code has it. A press that arrives while the coordinator is running and the
  timer is running: after the master's settings are taken over (for a master's press),
  \<open>cancel\<close> is called on the timer with the callback that calls \<open>abortScheduled\<close>, and
  it succeeds; then the state is cancelled, the gate is disarmed, every device gets the
  message Cancelled with the blink flag, and the titles are cleared; then the state is
  idle, every device gets the message \<open>Shutdown\<close> without the blink flag, and the titles
  are cleared again.
\<close>

theorem press_while_running:
  assumes "ev_action ev = Some k" and "ctl_state c = st_running"
    and "state (timers c (timer c)) = running"
  shows "let c0 = (if role = master
                   then setMaster (key_id k) (normalizeSettings (ev_settings ev)) c else c);
             c1 = handleKeyDown host ev role c;
             c2 = cancelCountdown_cancelled (timer c) c1;
             c3 = cancelCountdown_titles c2;
             c4 = cancelCountdown_rest c3;
             c5 = cancelCountdown_last_titles c4;
             groups = getKeysPerDevice c;
             titles = concat (map (map (\<lambda>key. SetTitle (key_id key) [])) groups)
         in timer_cancel_call host c0 = (True, c1)
            \<and> timers c1 (timer c) = cancelled_timer (timers c (timer c))
            \<and> queue c1 = cleared (timers c (timer c)) (queue c)
            \<and> trace c1 = trace c0 @ snd (abortScheduled host (gateway c))
            \<and> ctl_state c1 = st_running
            \<and> state (timers c2 (timer c)) = idle
            \<and> ctl_state c2 = st_cancelled \<and> \<not> power_armed (gateway c2)
            \<and> trace c2 = trace c1 @ log_call (gateway c) ''power disarmed (preview mode)'' None
                 @ map (\<lambda>keys. RenderMessage ''Cancelled'' keys
                                  (message_options (sharedSettings c0) True keys)) groups
            \<and> ctl_state c3 = st_cancelled \<and> trace c3 = trace c2 @ titles
            \<and> ctl_state c4 = st_idle
            \<and> trace c4 = trace c3
                 @ map (\<lambda>keys. RenderMessage ''Shutdown'' keys
                                  (message_options (sharedSettings c0) False keys)) groups
            \<and> ctl_state c5 = st_idle \<and> trace c5 = trace c4 @ titles"
proof -
  define c0 where "c0 = (if role = master
      then setMaster (key_id k) (normalizeSettings (ev_settings ev)) c else c)"
  have keep: "ctl_state c0 = st_running" "timers c0 = timers c" "timer c0 = timer c"
    "queue c0 = queue c" "gateway c0 = gateway c" "activeKeys c0 = activeKeys c"
    using assms(2) by (simp_all add: c0_def setMaster_keeps)
  have "state (timers c0 (timer c0)) = running"
    using assms(3) by (simp add: keep)
  note call = timer_cancel_call_running [OF this, of host]
  have h: "handleKeyDown host ev role c = snd (timer_cancel_call host c0)"
    using assms(1) keep(1) by (simp add: handleKeyDown_def Let_def c0_def)
  show ?thesis
    unfolding Let_def c0_def [symmetric] h call
    by (simp add: keep cancelCountdown_cancelled_def cancelCountdown_titles_def
        cancelCountdown_rest_def cancelCountdown_last_titles_def timer_cancel_returns_def
        cancel_end_def cancelled_timer_def setArmed_ctl_def setArmed_def emit_def
        renderMessageAcrossDevices_def clearTitlesAcrossDevices_def getKeysPerDevice_def
        Let_def)
qed

theorem press_while_running_witness:
  "ctl_state counting = st_running
   \<and> state (timers counting (timer counting)) = running
   \<and> ctl_state (cancelCountdown_cancelled (timer counting)
                  (handleKeyDown windows_host armed_five master counting)) = st_cancelled
   \<and> ctl_state (cancel_phases (timer counting)
                  (handleKeyDown windows_host armed_five master counting)) = st_idle"
proof -
  have a: "ev_action armed_five = Some key1"
    by (simp add: armed_five_def)
  have r: "state (timers counting (timer counting)) = running"
    by (simp add: counting_facts)
  from press_while_running [OF a counting_facts(1) r, of master windows_host, unfolded Let_def]
  show ?thesis
    by (simp add: cancel_phases_def counting_facts(1) r)
qed

text \<open>
  The second message is not the resting message of \<open>renderByState\<close>: with the gate armed
  that would be \<open>Live mode - press to start\<close>, and the press that cancels the countdown
  of \<open>counting\<close> renders Cancelled and then \<open>Shutdown\<close>.
\<close>

theorem press_while_running_counterexample:
  "ctl_state counting = st_running
   \<and> state (timers counting (timer counting)) = running
   \<and> armed (sharedSettings counting)
   \<and> messages (drop (length (trace counting))
        (trace (cancel_phases (timer counting)
                  (handleKeyDown windows_host armed_five master counting))))
       = [''Cancelled'', ''Shutdown'']
   \<and> idle_message (sharedSettings
        (cancel_phases (timer counting) (handleKeyDown windows_host armed_five master counting)))
       = ''Live mode - press to start''"
  by (simp add: scenario_defs Let_def)

text \<open>
  When the last tracked key unregisters while the coordinator is running and the timer
  is running, the timer is cancelled (its timeout cleared, its state
  cancelled and, once the callback has returned, idle), \<open>abortScheduled\<close> is called
  exactly once (the new effects are those of one call, and they show as one call when the
  gateway logs), the state of the coordinator becomes idle, and the message Cancelled and
  the clearing of the titles go out to the devices of the registry, which has none left.
  When the coordinator is not running or a key remains, none of this happens: no effect,
  and timer, timer queue, gate and state stay as they are.
\<close>

lemma unregister_while_counting:
  assumes "ev_action ev = Some k"
  shows "(ctl_state c = st_running \<and> map_delete (key_id k) (activeKeys c) = []
            \<and> state (timers c (timer c)) = running \<longrightarrow>
          (let c' = unregister host ev role c;
               new = drop (length (trace c)) (trace c')
           in timers c' (timer c) = cancelled_timer (timers c (timer c))
              \<and> queue c' = cleared (timers c (timer c)) (queue c)
              \<and> state (timers (timer_cancel_returns (timer c) c') (timer c)) = idle
              \<and> new = snd (abortScheduled host (gateway c))
                    @ map (\<lambda>keys. RenderMessage ''Cancelled'' keys
                                     (message_options (sharedSettings c) False keys))
                        (getKeysPerDevice c')
                    @ concat (map (map (\<lambda>key. SetTitle (key_id key) [])) (getKeysPerDevice c'))
              \<and> getKeysPerDevice c' = []
              \<and> (has_log (gateway c) \<longrightarrow> abort_calls new = 1)
              \<and> ctl_state c' = st_idle))
    \<and> (ctl_state c \<noteq> st_running \<or> map_delete (key_id k) (activeKeys c) \<noteq> [] \<longrightarrow>
          (let c' = unregister host ev role c
           in trace c' = trace c \<and> timers c' = timers c \<and> queue c' = queue c
              \<and> gateway c' = gateway c \<and> ctl_state c' = ctl_state c))"
proof (intro conjI impI)
  assume "ctl_state c = st_running \<and> map_delete (key_id k) (activeKeys c) = []
      \<and> state (timers c (timer c)) = running"
  then have u: "unregister host ev role c =
     c\<lparr>activeKeys := [],
       timers := (timers c)(timer c := cancelled_timer (timers c (timer c))),
       queue := cleared (timers c (timer c)) (queue c),
       trace := trace c @ snd (abortScheduled host (gateway c)),
       ctl_state := st_idle,
       masterContext := (if role = master \<and> masterContext c = Some (key_id k) then None
                         else masterContext c)\<rparr>"
    using assms(1) by (intro unregister_last_counting) simp_all
  show "let c' = unregister host ev role c;
            new = drop (length (trace c)) (trace c')
        in timers c' (timer c) = cancelled_timer (timers c (timer c))
           \<and> queue c' = cleared (timers c (timer c)) (queue c)
           \<and> state (timers (timer_cancel_returns (timer c) c') (timer c)) = idle
           \<and> new = snd (abortScheduled host (gateway c))
                 @ map (\<lambda>keys. RenderMessage ''Cancelled'' keys
                                  (message_options (sharedSettings c) False keys))
                     (getKeysPerDevice c')
                 @ concat (map (map (\<lambda>key. SetTitle (key_id key) [])) (getKeysPerDevice c'))
           \<and> getKeysPerDevice c' = []
           \<and> (has_log (gateway c) \<longrightarrow> abort_calls new = 1)
           \<and> ctl_state c' = st_idle"
    unfolding u Let_def
    by (simp add: getKeysPerDevice_def timer_cancel_returns_def cancel_end_def
        abortScheduled_once)
next
  assume "ctl_state c \<noteq> st_running \<or> map_delete (key_id k) (activeKeys c) \<noteq> []"
  from unregister_otherwise [OF assms(1) this, of host role]
  show "let c' = unregister host ev role c
        in trace c' = trace c \<and> timers c' = timers c \<and> queue c' = queue c
           \<and> gateway c' = gateway c \<and> ctl_state c' = ctl_state c"
    by (simp add: Let_def)
qed

text \<open>
  The only key disappears during the countdown of \<open>counting\<close>: one call of
  \<open>abortScheduled\<close>, and the coordinator is idle. It disappears before the key was ever
  pressed: nothing happens.
\<close>

lemma unregister_while_counting_example:
  "ctl_state counting = st_running
   \<and> map_delete (key_id key1) (activeKeys counting) = []
   \<and> state (timers counting (timer counting)) = running
   \<and> has_log (gateway counting)
   \<and> abort_calls (drop (length (trace counting))
        (trace (unregister windows_host armed_five master counting))) = 1
   \<and> ctl_state (unregister windows_host armed_five master counting) = st_idle
   \<and> ctl_state (snd (register armed_five master new_ShutdownController)) \<noteq> st_running
   \<and> trace (unregister windows_host armed_five master
               (snd (register armed_five master new_ShutdownController)))
       = trace (snd (register armed_five master new_ShutdownController))"
proof -
  have a: "ev_action armed_five = Some key1"
    by (simp add: armed_five_def)
  have l: "has_log (gateway counting)"
    by (simp add: counting_facts)
  have r: "state (timers counting (timer counting)) = running"
    by (simp add: counting_facts)
  have d: "map_delete (key_id key1) (activeKeys counting) = []"
    by (rule only_key1) (rule counting_facts)
  let ?c = "snd (register armed_five master new_ShutdownController)"
  have i: "ctl_state ?c \<noteq> st_running"
    by (simp add: scenario_defs Let_def)
  from unregister_while_counting [OF a, of counting windows_host master, unfolded Let_def]
    counting_facts(1) d r l
  have "abort_calls (drop (length (trace counting))
        (trace (unregister windows_host armed_five master counting))) = 1"
    and "ctl_state (unregister windows_host armed_five master counting) = st_idle"
    by blast+
  moreover from unregister_while_counting [OF a, of ?c windows_host master, unfolded Let_def] i
  have "trace (unregister windows_host armed_five master ?c) = trace ?c"
    by blast
  ultimately show ?thesis
    using counting_facts(1) d r i l by simp
qed

text \<open>
  C9. The specification has the coordinator cancel the timer and call \<open>abortScheduled\<close>
  exactly once whenever the last tracked key unregisters while the coordinator is
  running. The code does not do so at \<open>final_frame\<close>, the state in which the countdown of
  five seconds has reached 0, the timer is idle again and \<open>onComplete\<close> waits for the
  last frame to be drawn: the coordinator is running, \<open>key1\<close> is the only key, and when
  it disappears \<open>cancel\<close> finds the timer not running, so that its callback, the only
  place where \<open>unregister\<close> calls \<open>abortScheduled\<close>, is not run: \<open>unregister\<close> has no
  effect at all on the host. The coordinator goes to idle, and \<open>onComplete\<close>, going on,
  runs the shutdown command with no key left.
\<close>

theorem unregister_during_final_frame:
  "ctl_state final_frame = st_running
   \<and> map_delete (key_id key1) (activeKeys final_frame) = []
   \<and> state (timers final_frame (timer final_frame)) = idle
   \<and> has_log (gateway final_frame)
   \<and> trace (unregister windows_host armed_five master final_frame) = trace final_frame
   \<and> abort_calls (drop (length (trace final_frame))
        (trace (unregister windows_host armed_five master final_frame))) = 0
   \<and> ctl_state (unregister windows_host armed_five master final_frame) = st_idle
   \<and> commands (drop (length (trace final_frame))
        (trace (onComplete_perform windows_host
                  (onComplete_titles (unregister windows_host armed_five master final_frame)))))
       = [(''shutdown'', [''/s'', ''/t'', ''0''])]"
proof -
  have a: "ev_action armed_five = Some key1"
    by (simp add: armed_five_def)
  have d: "map_delete (key_id key1) (activeKeys final_frame) = []"
    by (rule only_key1) (rule final_frame_facts)
  have n: "state (timers final_frame (timer final_frame)) \<noteq> running"
    by (simp add: final_frame_facts)
  note u = unregister_last_not_counting [OF a d final_frame_facts(1) n, of windows_host master]
  have "commands (drop (length (trace final_frame))
        (trace (onComplete_perform windows_host
                  (onComplete_titles (unregister windows_host armed_five master final_frame)))))
       = [(''shutdown'', [''/s'', ''/t'', ''0''])]"
    unfolding u
    by (simp add: onComplete_perform_def onComplete_titles_def clearTitlesAcrossDevices_def
        getKeysPerDevice_def emit_def final_frame_facts perform_def runCommand_def
        windows_host_def log_call_def)
  then show ?thesis
    using d final_frame_facts(1) by (simp add: u final_frame_facts)
qed

end
